theory Spec2Isabelle
  imports Complex_Main
begin

section \<open>Python values and exceptions\<close>

text \<open>
  The exceptions the modelled code can raise, one constructor per kind.  A function that
  can raise returns \<open>error + 'a\<close>, with \<open>Inl\<close> for the exception.
  \<open>FieldTypeException\<close>, \<open>AssetCountException\<close>, \<open>NotAssetFileException\<close> and
  \<open>NotAoiFileException\<close> are the four \<^verbatim>\<open>raise Exception(...)\<close> statements of
  \<^verbatim>\<open>tds_stac_io.py\<close>; \<open>OSError\<close> and \<open>JSONDecodeError\<close> come from opening and
  decoding a file; \<open>SystemExit\<close> is \<^verbatim>\<open>sys.exit\<close>.
\<close>

datatype error =
    IndexError
  | OverflowError
  | ZeroDivisionError
  | AssertionError
  | KeyError
  | TypeError
  | AttributeError
  | ValueError
  | SyntaxError
  | SystemExit
  | OSError
  | JSONDecodeError
  | FileExistsError
  | FieldTypeException
  | AssetCountException
  | NotAssetFileException
  | NotAoiFileException

text \<open>Sequencing of computations that may raise: the first exception ends the run.\<close>

fun bindE :: "error + 'a \<Rightarrow> ('a \<Rightarrow> error + 'b) \<Rightarrow> error + 'b" where
  "bindE (Inl e) f = Inl e"
| "bindE (Inr x) f = f x"

section \<open>core.py: the training dataset facade\<close>

text \<open>
  \<^verbatim>\<open>class TDSExIdx2AOIIndexMap(NamedTuple)\<close>: the pair an example index of the whole
  dataset is mapped to.
\<close>

record TDSExIdx2AOIIndexMap =
  aoi_idx :: nat
  aoi_ex_idx :: nat

text \<open>
  \<^verbatim>\<open>class AOIDataset\<close>: the two abstract methods every AOI dataset implements.
  \<open>get_length\<close> is a number of examples, which \<^verbatim>\<open>__compute_ds_length\<close> adds up to the
  size of an array; \<open>getitem\<close> is \<^verbatim>\<open>__getitem__\<close>, which may raise.
\<close>

record 'ex AOIDataset =
  get_length :: nat
  getitem :: "int \<Rightarrow> error + 'ex"

text \<open>
  The attributes of an \<^verbatim>\<open>EOTrainingDataset\<close> object that the index arithmetic uses:
  the list of AOI datasets, the number of examples, and the table
  \<^verbatim>\<open>tds_ex_idx_2_aoi_ex_idx\<close>, a numpy array of objects (\<^verbatim>\<open>np.empty(n, dtype=object)\<close>
  holds \<^verbatim>\<open>None\<close> where nothing was stored).
\<close>

record 'ex EOTrainingDataset =
  aoi_ds_l :: "'ex AOIDataset list"
  n_exs :: nat
  tds_ex_idx_2_aoi_ex_idx :: "TDSExIdx2AOIIndexMap option list"

text \<open>
  First loop of \<^verbatim>\<open>__compute_ds_length\<close>:
  \<^verbatim>\<open>for aoi_idx, aoi_ds in enumerate(self.aoi_ds_l):
      aoi_2_tds_start_idx[aoi_idx] = n_exs
      n_ex_aoi = aoi_ds.get_length()
      n_exs += n_ex_aoi\<close>
  The arguments are the datasets still to visit, the loop index \<^verbatim>\<open>aoi_idx\<close>, the running
  sum \<^verbatim>\<open>n_exs\<close> and the array.
\<close>

fun start_idx_loop ::
  "'ex AOIDataset list \<Rightarrow> nat \<Rightarrow> nat \<Rightarrow> nat list \<Rightarrow> nat list \<times> nat" where
  "start_idx_loop [] k n arr = (arr, n)"
| "start_idx_loop (aoi_ds # rest) k n arr =
     start_idx_loop rest (Suc k) (n + get_length aoi_ds) (arr[k := n])"

text \<open>
  Inner loop of the second phase:
  \<^verbatim>\<open>for tds_ex_idx in np.arange(aoi_tds_ex_idx_start, aoi_tds_ex_idx_end):
      aoi_ex_idx = tds_ex_idx - aoi_tds_ex_idx_start
      ex_idx_map = TDSExIdx2AOIIndexMap(aoi_idx, aoi_ex_idx)
      self.tds_ex_idx_2_aoi_ex_idx[tds_ex_idx] = ex_idx_map\<close>
\<close>

definition fill_aoi ::
  "nat \<Rightarrow> nat \<Rightarrow> nat \<Rightarrow> TDSExIdx2AOIIndexMap option list \<Rightarrow> TDSExIdx2AOIIndexMap option list" where
  "fill_aoi k aoi_tds_ex_idx_start aoi_tds_ex_idx_end tbl =
     fold (\<lambda>tds_ex_idx t.
             t[tds_ex_idx := Some \<lparr>aoi_idx = k, aoi_ex_idx = tds_ex_idx - aoi_tds_ex_idx_start\<rparr>])
          [aoi_tds_ex_idx_start ..< aoi_tds_ex_idx_end] tbl"

text \<open>
  Outer loop of the second phase: \<^verbatim>\<open>for aoi_idx in range(len(self.aoi_ds_l))\<close>, reading
  the start and the end of each AOI from the array of the first phase.
\<close>

definition fill_table ::
  "nat list \<Rightarrow> nat \<Rightarrow> TDSExIdx2AOIIndexMap option list \<Rightarrow> TDSExIdx2AOIIndexMap option list" where
  "fill_table aoi_2_tds_start_idx n_aoi tbl =
     fold (\<lambda>k t. fill_aoi k (aoi_2_tds_start_idx ! k) (aoi_2_tds_start_idx ! (k + 1)) t)
          [0 ..< n_aoi] tbl"

text \<open>
  \<^verbatim>\<open>__compute_ds_length\<close>: returns \<open>n_exs\<close> and the table it stores in the object.
\<close>

definition compute_ds_length ::
  "'ex AOIDataset list \<Rightarrow> nat \<times> TDSExIdx2AOIIndexMap option list" where
  "compute_ds_length ds_l =
     (let (arr, n) = start_idx_loop ds_l 0 0 (replicate (length ds_l + 1) 0);
          aoi_2_tds_start_idx = arr[length ds_l := n]
      in (n, fill_table aoi_2_tds_start_idx (length ds_l) (replicate n None)))"

text \<open>
  The part of \<^verbatim>\<open>__init__\<close> after the AOI datasets are built:
  \<^verbatim>\<open>self.n_exs = self.__compute_ds_length()\<close>.
\<close>

definition EOTrainingDataset_init :: "'ex AOIDataset list \<Rightarrow> 'ex EOTrainingDataset" where
  "EOTrainingDataset_init ds_l =
     (let (n, tbl) = compute_ds_length ds_l
      in \<lparr>aoi_ds_l = ds_l, n_exs = n, tds_ex_idx_2_aoi_ex_idx = tbl\<rparr>)"

text \<open>\<^verbatim>\<open>__len__\<close>.\<close>

definition EOTrainingDataset_len :: "'ex EOTrainingDataset \<Rightarrow> nat" where
  "EOTrainingDataset_len self = n_exs self"

text \<open>
  Indexing a one-dimensional numpy array with a Python integer.  The index is first
  converted to the 64-bit index type, which raises OverflowError outside
  \<open>- 2\<^sup>6\<^sup>3 \<le> j < 2\<^sup>6\<^sup>3\<close>; then an index \<open>j\<close> with \<open>- n \<le> j < 0\<close> reads position
  \<open>n + j\<close>, and outside \<open>- n \<le> j < n\<close> numpy raises IndexError.  An array has fewer than
  \<open>2\<^sup>6\<^sup>3\<close> elements, so every index within \<open>- n \<le> j < n\<close> passes the conversion, and the
  definition tests the range of the array first.
\<close>

definition int64 :: "int \<Rightarrow> bool" where
  "int64 j = (- (2 ^ 63) \<le> j \<and> j < 2 ^ 63)"

definition np_getitem :: "'a list \<Rightarrow> int \<Rightarrow> error + 'a" where
  "np_getitem arr j =
     (let n = int (length arr) in
      if 0 \<le> j \<and> j < n then Inr (arr ! nat j)
      else if - n \<le> j \<and> j < 0 then Inr (arr ! nat (n + j))
      else if int64 j then Inl IndexError
      else Inl OverflowError)"

text \<open>
  \<^verbatim>\<open>__getitem__\<close>:
  \<^verbatim>\<open>aoi_idx, aoi_ex_idx = self.tds_ex_idx_2_aoi_ex_idx[ex_index]
  return self.aoi_ds_l[aoi_idx][aoi_ex_idx]\<close>
  Unpacking a \<^verbatim>\<open>None\<close> entry is a TypeError; \<^verbatim>\<open>self.aoi_ds_l[aoi_idx]\<close> indexes a Python
  list with a non-negative index.
\<close>

definition EOTrainingDataset_getitem :: "'ex EOTrainingDataset \<Rightarrow> int \<Rightarrow> error + 'ex" where
  "EOTrainingDataset_getitem self ex_index =
     (case np_getitem (tds_ex_idx_2_aoi_ex_idx self) ex_index of
        Inl e \<Rightarrow> Inl e
      | Inr None \<Rightarrow> Inl TypeError
      | Inr (Some m) \<Rightarrow>
          (if aoi_idx m < length (aoi_ds_l self)
           then getitem (aoi_ds_l self ! aoi_idx m) (int (aoi_ex_idx m))
           else Inl IndexError))"

text \<open>\<^verbatim>\<open>get_example\<close>: \<^verbatim>\<open>return self.__getitem__(index)\<close>.\<close>

definition get_example :: "'ex EOTrainingDataset \<Rightarrow> int \<Rightarrow> error + 'ex" where
  "get_example self index = EOTrainingDataset_getitem self index"

text \<open>
  The offset table as the specification words it: \<open>offset[0] = 0\<close> and
  \<open>offset[k+1] = offset[k] + c\<^sub>k\<close>, over the list of local example counts.
\<close>

fun offset :: "nat list \<Rightarrow> nat \<Rightarrow> nat" where
  "offset cs 0 = 0"
| "offset cs (Suc k) = offset cs k + cs ! k"
section \<open>Pilot AOI datasets: CAP.py and SpaceNet7.py\<close>

text \<open>
  Python's \<^verbatim>\<open>a / b\<close> on integers is true division: the result is the double nearest to the
  quotient (ties to the even mantissa), ZeroDivisionError for a zero divisor and
  OverflowError when the quotient is too large for a double.  The double is given here as
  the rational number it denotes.

  \<open>ilog2 n\<close> is the position of the leading bit of \<open>n\<close>, and \<open>exponent a b\<close> the
  integer \<open>e\<close> with \<open>2\<^sup>e \<le> a / b < 2\<^sup>e\<^sup>+\<^sup>1\<close> for positive \<open>a\<close> and \<open>b\<close>.  A double
  has 53 bits of mantissa, so the quotient is rounded to a multiple of \<open>2\<^sup>e\<^sup>-\<^sup>5\<^sup>2\<close>, and to
  a multiple of \<open>2\<^sup>-\<^sup>1\<^sup>0\<^sup>7\<^sup>4\<close> in the subnormal range.
\<close>

function ilog2 :: "int \<Rightarrow> int" where
  "ilog2 n = (if n < 2 then 0 else 1 + ilog2 (n div 2))"
  by pat_completeness auto

termination
  by (relation "measure nat") auto

declare ilog2.simps [simp del]

definition exponent :: "int \<Rightarrow> int \<Rightarrow> int" where
  "exponent a b =
     (if b \<le> a then ilog2 (a div b)
      else - (1 + ilog2 ((b + a - 1) div a - 1)))"

definition round_half_even :: "rat \<Rightarrow> int" where
  "round_half_even x =
     (let f = \<lfloor>x\<rfloor>; d = x - of_int f in
      if d < 1 / 2 then f
      else if 1 / 2 < d then f + 1
      else if even f then f else f + 1)"

definition true_div :: "int \<Rightarrow> int \<Rightarrow> error + rat" where
  "true_div a b =
     (if b = 0 then Inl ZeroDivisionError
      else if a = 0 then Inr 0
      else
        (let q = \<bar>of_int a / of_int b\<bar>;
             p = max (exponent \<bar>a\<bar> \<bar>b\<bar> - 52) (- 1074);
             r = of_int (round_half_even (q / 2 powi p)) * 2 powi p
         in if 2 ^ 1024 \<le> r then Inl OverflowError
            else Inr (of_int (sgn a * sgn b) * r)))"

text \<open>\<^verbatim>\<open>int(x)\<close> on a float: truncation towards zero.\<close>

definition int_of_float :: "rat \<Rightarrow> int" where
  "int_of_float x = (if 0 \<le> x then \<lfloor>x\<rfloor> else \<lceil>x\<rceil>)"

text \<open>
  Python's \<^verbatim>\<open>int(a / b)\<close> on integers: true division, then truncation towards zero.
  While both operands are below \<open>2\<^sup>5\<^sup>3\<close> in absolute value the truncated double is the
  truncated quotient: a quotient that is not an integer lies at least \<open>1 / \<bar>b\<bar>\<close> from the
  next integer, which is more than the rounding moves it.  The first branch writes that
  case out; beyond it the double is truncated as it is.
\<close>

definition int_truediv :: "int \<Rightarrow> int \<Rightarrow> error + int" where
  "int_truediv a b =
     (if b = 0 then Inl ZeroDivisionError
      else if \<bar>a\<bar> < 2 ^ 53 \<and> \<bar>b\<bar> < 2 ^ 53 then Inr (sgn a * sgn b * (\<bar>a\<bar> div \<bar>b\<bar>))
      else bindE (true_div a b) (\<lambda>x. Inr (int_of_float x)))"

text \<open>Python's \<^verbatim>\<open>a % b\<close> on integers: the remainder has the sign of \<open>b\<close>, as \<open>mod\<close> has.\<close>

definition py_mod :: "int \<Rightarrow> int \<Rightarrow> error + int" where
  "py_mod a b = (if b = 0 then Inl ZeroDivisionError else Inr (a mod b))"

text \<open>Indexing a tuple, here the shape of an array: negative indices count from the end.\<close>

definition tuple_getitem :: "'a list \<Rightarrow> int \<Rightarrow> error + 'a" where
  "tuple_getitem t j =
     (let n = int (length t) in
      if 0 \<le> j \<and> j < n then Inr (t ! nat j)
      else if - n \<le> j \<and> j < 0 then Inr (t ! nat (n + j))
      else Inl IndexError)"

text \<open>The built-in \<^verbatim>\<open>len(obj)\<close>: the value of \<^verbatim>\<open>__len__\<close>, refused when negative.\<close>

definition py_len :: "error + int \<Rightarrow> error + int" where
  "py_len r = bindE r (\<lambda>n. if n < 0 then Inl ValueError else Inr n)"

text \<open>
  The pixel window of an example: the bounds of the two slices
  \<^verbatim>\<open>x=slice(x1, x2), y=slice(y1, y2)\<close> handed to the raster access.
\<close>

record window =
  x1 :: int
  y1 :: int
  x2 :: int
  y2 :: int

text \<open>
  The number of windows along one axis, as both classes write it inline:
  \<^verbatim>\<open>int((extent - window_size) / stride)\<close> in CAP.py, the same \<^verbatim>\<open>+ 1\<close> in SpaceNet7.py.
\<close>

definition windows_exclusive :: "nat \<Rightarrow> int \<Rightarrow> int \<Rightarrow> error + int" where
  "windows_exclusive extent ws st = int_truediv (int extent - ws) st"

definition windows_inclusive :: "nat \<Rightarrow> int \<Rightarrow> int \<Rightarrow> error + int" where
  "windows_inclusive extent ws st = bindE (int_truediv (int extent - ws) st) (\<lambda>q. Inr (q + 1))"

subsection \<open>CAP.py\<close>

text \<open>
  What \<^verbatim>\<open>__len__\<close> and \<^verbatim>\<open>__getitem__\<close> of \<^verbatim>\<open>AOIDatasetCAP\<close> read from the object: the
  shape of \<^verbatim>\<open>self.data.feature_data\<close> and the integers \<^verbatim>\<open>self.metadata['window_size']\<close> and
  \<^verbatim>\<open>self.metadata['stride']\<close>.
\<close>

record AOIDatasetCAP =
  cap_shape :: "nat list"
  cap_window_size :: int
  cap_stride :: int

text \<open>
  \<^verbatim>\<open>along_x = int((self.data.feature_data.shape[1] - window_size) / stride)
  along_y = int((self.data.feature_data.shape[-1] - window_size) / stride)\<close>
\<close>

definition cap_along_x :: "AOIDatasetCAP \<Rightarrow> error + int" where
  "cap_along_x self =
     bindE (tuple_getitem (cap_shape self) 1)
       (\<lambda>e. windows_exclusive e (cap_window_size self) (cap_stride self))"

definition cap_along_y :: "AOIDatasetCAP \<Rightarrow> error + int" where
  "cap_along_y self =
     bindE (tuple_getitem (cap_shape self) (- 1))
       (\<lambda>e. windows_exclusive e (cap_window_size self) (cap_stride self))"

text \<open>\<^verbatim>\<open>AOIDatasetCAP.__len__\<close>: \<^verbatim>\<open>return along_x * along_y\<close>.\<close>

definition AOIDatasetCAP_len :: "AOIDatasetCAP \<Rightarrow> error + int" where
  "AOIDatasetCAP_len self =
     bindE (cap_along_x self) (\<lambda>along_x.
     bindE (cap_along_y self) (\<lambda>along_y.
     Inr (along_x * along_y)))"

text \<open>
  \<^verbatim>\<open>AOIDatasetCAP.__getitem__\<close>:
  \<^verbatim>\<open>x1 = stride * int(index % along_x)
  y1 = stride * int(index / along_y)
  x2 = x1 + window_size
  y2 = y1 + window_size\<close>
  The result stands for the dataset \<^verbatim>\<open>self.data.isel(..., x=slice(x1, x2), y=slice(y1, y2))\<close>;
  the read of the pixels is the raster library's.
\<close>

definition AOIDatasetCAP_getitem :: "AOIDatasetCAP \<Rightarrow> int \<Rightarrow> error + window" where
  "AOIDatasetCAP_getitem self index =
     bindE (cap_along_x self) (\<lambda>along_x.
     bindE (cap_along_y self) (\<lambda>along_y.
     bindE (py_mod index along_x) (\<lambda>c.
     bindE (int_truediv index along_y) (\<lambda>r.
     (let a = cap_stride self * c; b = cap_stride self * r
      in Inr \<lparr>x1 = a, y1 = b, x2 = a + cap_window_size self, y2 = b + cap_window_size self\<rparr>)))))"

subsection \<open>SpaceNet7.py\<close>

text \<open>
  The attributes of an \<^verbatim>\<open>AOIDatasetSpaceNet\<close> object; an attribute that was never assigned
  is \<open>None\<close>, and reading it raises AttributeError.  Of the two arrays only the shape
  matters here: \<^verbatim>\<open>feature_data\<close> has the dates first, then the bands and the two pixel
  axes; \<^verbatim>\<open>reference_data\<close> the dates and the two pixel axes.  \<^verbatim>\<open>timesteps\<close> is the
  array of dates, of which only the length is read; \<^verbatim>\<open>metadata\<close> is the dictionary with
  the two integers \<^verbatim>\<open>window_size\<close> and \<^verbatim>\<open>stride\<close>, in that order; \<^verbatim>\<open>data\<close> is the
  xarray dataset, of which only the existence matters.
\<close>

record AOIDatasetSpaceNet =
  sn_feature_data :: "nat list option"
  sn_reference_data :: "nat list option"
  sn_timesteps :: "nat option"
  sn_data :: "unit option"
  sn_metadata :: "(int \<times> int) option"

definition attr :: "'a option \<Rightarrow> error + 'a" where
  "attr a = (case a of None \<Rightarrow> Inl AttributeError | Some v \<Rightarrow> Inr v)"

text \<open>The object as \<^verbatim>\<open>__init__\<close> receives it: no attribute assigned.\<close>

definition sn_new :: AOIDatasetSpaceNet where
  "sn_new = \<lparr>sn_feature_data = None, sn_reference_data = None, sn_timesteps = None,
             sn_data = None, sn_metadata = None\<rparr>"

text \<open>
  \<^verbatim>\<open>AOIDatasetSpaceNet.__init__\<close>:
  \<^verbatim>\<open>feature_data = xr.open_dataarray(AOI_path+'/images_masked.nc')
  reference_data = xr.open_dataarray(AOI_path+'/building_masks.nc').rename({'band':'mask'})
  self.timesteps = self.feature_data['date'].values
  self.data = self.feature_data.to_dataset(name='feature_data')
  self.data['reference_data'] = self.reference_data
  self.metadata = metadata\<close>
  The two arrays are bound to local names; the statements that follow read attributes of
  \<open>self\<close>.  The outcomes of the two \<^verbatim>\<open>open_dataarray\<close> calls (the second with its
  \<^verbatim>\<open>rename\<close>), an exception or the shape of the array, are parameters.
\<close>

definition AOIDatasetSpaceNet_init ::
  "(error + nat list) \<Rightarrow> (error + nat list) \<Rightarrow> int \<times> int \<Rightarrow> error + AOIDatasetSpaceNet" where
  "AOIDatasetSpaceNet_init images_masked building_masks metadata =
     bindE images_masked (\<lambda>feature_data.
     bindE building_masks (\<lambda>reference_data.
     bindE (attr (sn_feature_data sn_new)) (\<lambda>fd.
     bindE (tuple_getitem fd 0) (\<lambda>dates.
     (let self1 = sn_new\<lparr>sn_timesteps := Some dates\<rparr> in
      bindE (attr (sn_feature_data self1)) (\<lambda>_.
      (let self2 = self1\<lparr>sn_data := Some ()\<rparr> in
       bindE (attr (sn_reference_data self2)) (\<lambda>_.
       Inr (self2\<lparr>sn_metadata := Some metadata\<rparr>)))))))))"

text \<open>
  \<^verbatim>\<open>sample_image = self.feature_data[0]\<close>: the shape of the first image, IndexError when the
  array has no first axis or the axis is empty.
\<close>

definition sn_sample_image_shape :: "AOIDatasetSpaceNet \<Rightarrow> error + nat list" where
  "sn_sample_image_shape self =
     bindE (attr (sn_feature_data self)) (\<lambda>shape.
     (case shape of
        [] \<Rightarrow> Inl IndexError
      | d # rest \<Rightarrow> if d = 0 then Inl IndexError else Inr rest))"

text \<open>
  \<^verbatim>\<open>x1_ceiling = int((sample_image.shape[1]-self.metadata['window_size'])/self.metadata['stride']) +1
  y1_ceiling = int((sample_image.shape[2]-self.metadata['window_size'])/self.metadata['stride']) +1\<close>
\<close>

definition sn_x1_ceiling :: "AOIDatasetSpaceNet \<Rightarrow> nat list \<Rightarrow> error + int" where
  "sn_x1_ceiling self sample_shape =
     bindE (tuple_getitem sample_shape 1) (\<lambda>e.
     bindE (attr (sn_metadata self)) (\<lambda>(window_size, stride).
     windows_inclusive e window_size stride))"

definition sn_y1_ceiling :: "AOIDatasetSpaceNet \<Rightarrow> nat list \<Rightarrow> error + int" where
  "sn_y1_ceiling self sample_shape =
     bindE (tuple_getitem sample_shape 2) (\<lambda>e.
     bindE (attr (sn_metadata self)) (\<lambda>(window_size, stride).
     windows_inclusive e window_size stride))"

text \<open>
  \<^verbatim>\<open>AOIDatasetSpaceNet.__len__\<close>:
  \<^verbatim>\<open>single_image_examples = int(x1_ceiling)*int(y1_ceiling)
  return len(self.timesteps)*single_image_examples\<close>
\<close>

definition AOIDatasetSpaceNet_len :: "AOIDatasetSpaceNet \<Rightarrow> error + int" where
  "AOIDatasetSpaceNet_len self =
     bindE (sn_sample_image_shape self) (\<lambda>sample_shape.
     bindE (sn_x1_ceiling self sample_shape) (\<lambda>x1_ceiling.
     bindE (sn_y1_ceiling self sample_shape) (\<lambda>y1_ceiling.
     bindE (attr (sn_timesteps self)) (\<lambda>timesteps.
     Inr (int timesteps * (x1_ceiling * y1_ceiling))))))"

text \<open>
  \<^verbatim>\<open>AOIDatasetSpaceNet.__getitem__\<close>:
  \<^verbatim>\<open>if index >= len(self):
      sys.exit('index out of range')
  ...
  single_image_examples = x1_ceiling*y1_ceiling
  timestep = int(index/single_image_examples)
  image = self.feature_data[timestep]
  image_index = index - timestep*single_image_examples
  x1 = self.metadata['stride']*(image_index%x1_ceiling)
  y1 = self.metadata['stride']*(int(image_index/x1_ceiling))
  x2 = x1+self.metadata['window_size']
  y2 = y1+self.metadata['window_size']
  date = self.timesteps[timestep]
  image = image[:,x1:x2,y1:y2]
  building_mask = self.reference_data[timestep,x1:x2,y1:y2]
  ds = self.data.isel(date=[timestep], ..., x=slice(x1,x2), y=slice(y1,y2)).squeeze()\<close>
  The reads at \<open>timestep\<close> raise IndexError outside the first axis of the array read and
  outside \<^verbatim>\<open>self.timesteps\<close>; slices raise nothing; three indices into
  \<^verbatim>\<open>self.reference_data\<close> raise IndexError when it has fewer than three axes.  The result
  is the time step and the window of the dataset \<open>ds\<close>; the read of the pixels is the
  raster library's.
\<close>

definition AOIDatasetSpaceNet_getitem :: "AOIDatasetSpaceNet \<Rightarrow> int \<Rightarrow> error + int \<times> window" where
  "AOIDatasetSpaceNet_getitem self index =
     bindE (py_len (AOIDatasetSpaceNet_len self)) (\<lambda>n.
     if index \<ge> n then Inl SystemExit else
     bindE (sn_sample_image_shape self) (\<lambda>sample_shape.
     bindE (sn_x1_ceiling self sample_shape) (\<lambda>x1_ceiling.
     bindE (sn_y1_ceiling self sample_shape) (\<lambda>y1_ceiling.
     bindE (int_truediv index (x1_ceiling * y1_ceiling)) (\<lambda>timestep.
     bindE (attr (sn_feature_data self)) (\<lambda>fd.
     bindE (tuple_getitem fd 0) (\<lambda>n_images.
     bindE (tuple_getitem (replicate n_images ()) timestep) (\<lambda>_.
     bindE (attr (sn_metadata self)) (\<lambda>(window_size, stride).
     bindE (py_mod (index - timestep * (x1_ceiling * y1_ceiling)) x1_ceiling) (\<lambda>c.
     bindE (int_truediv (index - timestep * (x1_ceiling * y1_ceiling)) x1_ceiling) (\<lambda>r.
     bindE (attr (sn_timesteps self)) (\<lambda>timesteps.
     bindE (tuple_getitem (replicate timesteps ()) timestep) (\<lambda>_.
     bindE (attr (sn_reference_data self)) (\<lambda>rd.
     if length rd < 3 then Inl IndexError else
     bindE (tuple_getitem (replicate (hd rd) ()) timestep) (\<lambda>_.
     bindE (attr (sn_data self)) (\<lambda>_.
     Inr (timestep,
          \<lparr>x1 = stride * c, y1 = stride * r,
           x2 = stride * c + window_size,
           y2 = stride * r + window_size\<rparr>)))))))))))))))))"

text \<open>
  The window of local index \<open>i\<close> as the specification words it, from the number of windows
  along the first axis, the number of examples per time step, the window size \<open>S\<close> and
  the stride \<open>St\<close>; \<open>div\<close> is the floor.
\<close>

definition spec_window :: "int \<Rightarrow> int \<Rightarrow> int \<Rightarrow> int \<Rightarrow> int \<Rightarrow> int \<times> window" where
  "spec_window axisWindowsX perTimestepCount S St i =
     (let timestep = i div perTimestepCount;
          residual = i - timestep * perTimestepCount;
          row = residual div axisWindowsX;
          col = residual mod axisWindowsX;
          a = St * col;
          b = St * row
      in (timestep, \<lparr>x1 = a, y1 = b, x2 = a + S, y2 = b + S\<rparr>))"

text \<open>
  The example count as the specification words it: \<open>perTimestepCount * max(T, 1)\<close>, where
  the time length \<open>T\<close> is 0 for a raster without a time axis.
\<close>

definition spec_total :: "int \<Rightarrow> nat \<Rightarrow> int" where
  "spec_total perTimestepCount T = perTimestepCount * int (max T 1)"

section \<open>tds_stac_io.py: the catalog\<close>

subsection \<open>Decoded JSON and the Python operations on it\<close>

text \<open>
  What \<^verbatim>\<open>json.load\<close> returns.  An object is a dictionary, kept as the list of its
  entries in document order, each key once; numbers are not looked into by the catalog
  code and are kept as integers.
\<close>

datatype json =
    JNull
  | JBool bool
  | JNum int
  | JStr string
  | JArr "json list"
  | JObj "(string \<times> json) list"

text \<open>\<^verbatim>\<open>d[key]\<close> with a string key: only a dictionary can be subscripted by a string.\<close>

fun subscript :: "json \<Rightarrow> string \<Rightarrow> error + json" where
  "subscript (JObj kvs) key = (case map_of kvs key of None \<Rightarrow> Inl KeyError | Some v \<Rightarrow> Inr v)"
| "subscript _ key = Inl TypeError"

text \<open>\<^verbatim>\<open>d.get(key)\<close>: \<^verbatim>\<open>None\<close> for a missing key; only a dictionary has the method.\<close>

fun dict_get :: "json \<Rightarrow> string \<Rightarrow> error + json" where
  "dict_get (JObj kvs) key = (case map_of kvs key of None \<Rightarrow> Inr JNull | Some v \<Rightarrow> Inr v)"
| "dict_get _ key = Inl AttributeError"

text \<open>
  \<^verbatim>\<open>for x in v\<close>: the elements of a list, the keys of a dictionary, the characters of a
  string; nothing else is iterable.
\<close>

fun iterate :: "json \<Rightarrow> error + json list" where
  "iterate (JArr xs) = Inr xs"
| "iterate (JObj kvs) = Inr (map (\<lambda>kv. JStr (fst kv)) kvs)"
| "iterate (JStr s) = Inr (map (\<lambda>c. JStr [c]) s)"
| "iterate _ = Inl TypeError"

text \<open>\<^verbatim>\<open>len(v)\<close>.\<close>

fun len_json :: "json \<Rightarrow> error + nat" where
  "len_json (JArr xs) = Inr (length xs)"
| "len_json (JObj kvs) = Inr (length kvs)"
| "len_json (JStr s) = Inr (length s)"
| "len_json _ = Inl TypeError"

text \<open>\<^verbatim>\<open>list(v.keys())\<close>: only a dictionary has the method.\<close>

fun keys_json :: "json \<Rightarrow> error + string list" where
  "keys_json (JObj kvs) = Inr (map fst kvs)"
| "keys_json _ = Inl AttributeError"

text \<open>\<^verbatim>\<open>s.startswith(p)\<close> on strings, and as a method call on a decoded value.\<close>

definition startswith :: "string \<Rightarrow> string \<Rightarrow> bool" where
  "startswith s p = (take (length p) s = p)"

fun startswith_json :: "json \<Rightarrow> string \<Rightarrow> error + bool" where
  "startswith_json (JStr s) p = Inr (startswith s p)"
| "startswith_json _ p = Inl AttributeError"

text \<open>\<^verbatim>\<open>s.split(c)\<close>: one token more than there are separators, empty tokens kept.\<close>

fun split_on :: "char \<Rightarrow> string \<Rightarrow> string list" where
  "split_on c [] = [[]]"
| "split_on c (x # xs) =
     (if x = c then [] # split_on c xs
      else (case split_on c xs of [] \<Rightarrow> [[x]] | t # ts \<Rightarrow> (x # t) # ts))"

text \<open>
  \<^verbatim>\<open>_, field_type, field_name = link['rel'].split('/')\<close>: the unpacking needs three
  tokens, and raises ValueError on fewer or more; \<^verbatim>\<open>split\<close> is a method of strings.
\<close>

fun unpack_rel :: "json \<Rightarrow> error + string \<times> string" where
  "unpack_rel (JStr s) =
     (case split_on (CHR ''/'') s of
        [_, field_type, field_name] \<Rightarrow> Inr (field_type, field_name)
      | _ \<Rightarrow> Inl ValueError)"
| "unpack_rel _ = Inl AttributeError"

text \<open>\<^verbatim>\<open>Path(v)\<close>: a path is made from a string.\<close>

fun as_path :: "json \<Rightarrow> error + string" where
  "as_path (JStr s) = Inr s"
| "as_path _ = Inl TypeError"

subsection \<open>What the catalog code takes from outside\<close>

text \<open>
  The file system and \<^verbatim>\<open>pathlib\<close>: \<open>read_json p\<close> is \<^verbatim>\<open>open(p)\<close> followed by
  \<^verbatim>\<open>json.load\<close>, with the exception either raises; \<open>is_file\<close>, \<open>is_absolute\<close>,
  \<open>joinpath\<close> (the operator \<^verbatim>\<open>/\<close>), \<open>absolute\<close> and \<open>parent\<close> are the methods of
  \<^verbatim>\<open>Path\<close>, on paths written as strings.  \<open>class_attr\<close> tells which names other than
  \<^verbatim>\<open>features\<close> and \<^verbatim>\<open>references\<close> are attributes of the named-tuple class
  \<^verbatim>\<open>FieldSchema\<close> (\<^verbatim>\<open>count\<close>, \<^verbatim>\<open>index\<close>, \<^verbatim>\<open>_fields\<close> and so on, as the interpreter
  provides them): \<^verbatim>\<open>hasattr(FieldSchema, field_type)\<close> is true of those as well.

  The loaders build the statement
  \<^verbatim>\<open>all_field_metadata.<field_type>["<field_name>"] = field_profile_info\<close> as a text and hand it
  to \<^verbatim>\<open>exec\<close>.  What a run of it does to the two dictionaries is one of three things: it
  stores \<^verbatim>\<open>field_profile_info\<close> under some key of \<^verbatim>\<open>features\<close>, or under some key of
  \<^verbatim>\<open>references\<close>, or it leaves both as they are (a store into another dictionary of the
  class, such as \<^verbatim>\<open>__annotations__\<close>); or it raises (SyntaxError for a text that is not
  Python, TypeError for a field type such as \<^verbatim>\<open>count\<close>, whose attribute takes no item
  assignment).  \<open>exec_other\<close> is the interpreter's answer for a field type and a field
  name, consulted where the text is not the plain assignment described below.
\<close>

datatype target = InFeatures string | InReferences string | Elsewhere

record env =
  read_json :: "string \<Rightarrow> error + json"
  is_file :: "string \<Rightarrow> bool"
  is_absolute :: "string \<Rightarrow> bool"
  joinpath :: "string \<Rightarrow> string \<Rightarrow> string"
  absolute :: "string \<Rightarrow> string"
  parent :: "string \<Rightarrow> string"
  class_attr :: "string \<Rightarrow> bool"
  exec_other :: "string \<Rightarrow> string \<Rightarrow> error + target"

subsection \<open>The data classes\<close>

text \<open>
  \<^verbatim>\<open>MetadataRequirementInfo\<close>, \<^verbatim>\<open>FieldSchema\<close>, \<^verbatim>\<open>FieldProfileInfo\<close>, \<^verbatim>\<open>AllFieldMetadata\<close>,
  \<^verbatim>\<open>TDSRootCtlInfo\<close> and \<^verbatim>\<open>AOICollectionInfo\<close>.  Where two classes use one field name,
  the name carries the class in front.
\<close>

record MetadataRequirementInfo =
  required_metadata_set :: "string set"
  recommended_metadata_set :: "string set"
  optional_metadata_set :: "string set"

record FieldSchema =
  schema_features :: json
  schema_references :: json

record FieldProfileInfo =
  fn_path :: string
  metadata_d :: json
  data_asset_w_path :: "string option"
  data_asset_info_d :: "json option"

record AllFieldMetadata =
  features :: "string \<rightharpoonup> FieldProfileInfo"
  references :: "string \<rightharpoonup> FieldProfileInfo"

record TDSRootCtlInfo =
  root_fn_path :: string
  tds_root_metadata_d :: json
  g_all_field_metadata :: "AllFieldMetadata option"

record AOICollectionInfo =
  aoi_fn_path :: string
  aoi_collection_metadata_d :: json
  aoi_all_field_metadata :: "AllFieldMetadata option"

text \<open>
  The attributes of a \<^verbatim>\<open>DatasetSTACCatalog\<close> object.  \<^verbatim>\<open>__init__\<close> sets the three flags
  and the list; \<^verbatim>\<open>tds_ctl_root_info\<close> and \<^verbatim>\<open>field_schema\<close> do not exist until they
  are assigned.
\<close>

record DatasetSTACCatalog =
  valid_tds_root :: bool
  valid_tds :: bool
  valid_field_schema :: bool
  aoi_collection_info_l :: "AOICollectionInfo list"
  tds_ctl_root_info :: "TDSRootCtlInfo option"
  field_schema :: "FieldSchema option"

text \<open>\<^verbatim>\<open>DatasetSTACCatalog.__init__\<close>.\<close>

definition DatasetSTACCatalog_init :: DatasetSTACCatalog where
  "DatasetSTACCatalog_init =
     \<lparr>valid_tds_root = False, valid_tds = False, valid_field_schema = False,
      aoi_collection_info_l = [], tds_ctl_root_info = None, field_schema = None\<rparr>"

text \<open>
  The module-level loop that fills \<^verbatim>\<open>ext_to_metadata_req_info_d\<close>: for one extension,
  the three sets of the names its configuration maps to \<^verbatim>\<open>'required'\<close>,
  \<^verbatim>\<open>'recommended'\<close> and \<^verbatim>\<open>'optional'\<close>.  The configuration file itself is not part of
  the sources; it is the argument.
\<close>

definition metadata_req_info :: "(string \<times> string) list \<Rightarrow> MetadataRequirementInfo" where
  "metadata_req_info ext_metadata_req_d =
     \<lparr>required_metadata_set =
        set (map fst (filter (\<lambda>kv. snd kv = ''required'') ext_metadata_req_d)),
      recommended_metadata_set =
        set (map fst (filter (\<lambda>kv. snd kv = ''recommended'') ext_metadata_req_d)),
      optional_metadata_set =
        set (map fst (filter (\<lambda>kv. snd kv = ''optional'') ext_metadata_req_d))\<rparr>"

definition ext_to_metadata_req_info_d ::
  "(string \<times> (string \<times> string) list) list \<Rightarrow> string \<rightharpoonup> MetadataRequirementInfo" where
  "ext_to_metadata_req_info_d all_metadata_requirement_d =
     map_of (map (\<lambda>kv. (fst kv, metadata_req_info (snd kv))) all_metadata_requirement_d)"

subsection \<open>Loading a catalog\<close>

text \<open>A loop whose body may raise: the first exception ends it.\<close>

fun foldE :: "('a \<Rightarrow> 's \<Rightarrow> error + 's) \<Rightarrow> 'a list \<Rightarrow> 's \<Rightarrow> error + 's" where
  "foldE f [] s = Inr s"
| "foldE f (x # xs) s = (case f x s of Inl e \<Rightarrow> Inl e | Inr s' \<Rightarrow> foldE f xs s')"

fun mapE :: "('a \<Rightarrow> error + 'b) \<Rightarrow> 'a list \<Rightarrow> error + 'b list" where
  "mapE f [] = Inr []"
| "mapE f (x # xs) =
     (case f x of
        Inl e \<Rightarrow> Inl e
      | Inr y \<Rightarrow> (case mapE f xs of Inl e \<Rightarrow> Inl e | Inr ys \<Rightarrow> Inr (y # ys)))"

text \<open>
  \<^verbatim>\<open>FieldSchema(**d)\<close>: the argument is a dictionary with the two keys \<^verbatim>\<open>features\<close> and
  \<^verbatim>\<open>references\<close> and no other; anything else is a TypeError.
\<close>

fun FieldSchema_of :: "json \<Rightarrow> error + FieldSchema" where
  "FieldSchema_of (JObj kvs) =
     (case (map_of kvs ''features'', map_of kvs ''references'') of
        (Some f, Some r) \<Rightarrow>
          if list_all (\<lambda>kv. fst kv = ''features'' \<or> fst kv = ''references'') kvs
          then Inr \<lparr>schema_features = f, schema_references = r\<rparr>
          else Inl TypeError
      | _ \<Rightarrow> Inl TypeError)"
| "FieldSchema_of _ = Inl TypeError"

text \<open>\<^verbatim>\<open>__parse_root_tds_ctl_info\<close>.\<close>

definition parse_root_tds_ctl_info :: "env \<Rightarrow> string \<Rightarrow> error + TDSRootCtlInfo" where
  "parse_root_tds_ctl_info ev tds_ctl_path =
     bindE (read_json ev tds_ctl_path) (\<lambda>tds_ctl_d.
     Inr \<lparr>root_fn_path = absolute ev tds_ctl_path, tds_root_metadata_d = tds_ctl_d,
          g_all_field_metadata = None\<rparr>)"

text \<open>
  A field name that can stand between the double quotes of the generated statement
  unchanged: no double quote, no backslash, no line break and no null character.  Between
  the quotes such a name is a string literal that denotes the name itself.
\<close>

definition plain_name :: "string \<Rightarrow> bool" where
  "plain_name s = list_all (\<lambda>c. c \<noteq> CHR 0x22 \<and> c \<noteq> CHR 0x5C \<and> c \<noteq> CHR 0x0A \<and> c \<noteq> CHR 0x0D \<and> c \<noteq> CHR 0x00) s"

text \<open>
  \<^verbatim>\<open>set_field_metadata_command = 'all_field_metadata.'+ field_type+'["' + field_name + '"] = ' + 'field_profile_info'
  exec(set_field_metadata_command)\<close>
  For one of the two field types and a plain field name the statement run is the
  assignment \<^verbatim>\<open>all_field_metadata.features["name"] = field_profile_info\<close> (or the one into
  \<^verbatim>\<open>references\<close>), which stores the profile under the name, over any entry already there.
  For any other field type or name the outcome is the interpreter's: a name with a
  backslash is stored under the key its escapes denote, or is a SyntaxError; a field type
  that is another attribute of the class raises TypeError or stores elsewhere.  A name
  with a double quote ends the string literal, and the rest of the name is run as Python:
  the model follows such a name as far as the statement raises or still does the one
  store.
\<close>

definition store_target :: "env \<Rightarrow> string \<Rightarrow> string \<Rightarrow> error + target" where
  "store_target ev field_type field_name =
     (if field_type = ''features'' \<and> plain_name field_name then Inr (InFeatures field_name)
      else if field_type = ''references'' \<and> plain_name field_name then Inr (InReferences field_name)
      else exec_other ev field_type field_name)"

definition store :: "target \<Rightarrow> FieldProfileInfo \<Rightarrow> AllFieldMetadata \<Rightarrow> AllFieldMetadata" where
  "store tg field_profile_info all_field_metadata =
     (case tg of
        InFeatures k \<Rightarrow>
          all_field_metadata\<lparr>features := (features all_field_metadata)(k \<mapsto> field_profile_info)\<rparr>
      | InReferences k \<Rightarrow>
          all_field_metadata\<lparr>references := (references all_field_metadata)(k \<mapsto> field_profile_info)\<rparr>
      | Elsewhere \<Rightarrow> all_field_metadata)"

definition set_field_metadata ::
  "env \<Rightarrow> AllFieldMetadata \<Rightarrow> string \<Rightarrow> string \<Rightarrow> FieldProfileInfo \<Rightarrow> error + AllFieldMetadata" where
  "set_field_metadata ev all_field_metadata field_type field_name field_profile_info =
     bindE (store_target ev field_type field_name) (\<lambda>tg.
     Inr (store tg field_profile_info all_field_metadata))"

text \<open>\<^verbatim>\<open>hasattr(FieldSchema, field_type)\<close>.\<close>

definition hasattr_FieldSchema :: "env \<Rightarrow> string \<Rightarrow> bool" where
  "hasattr_FieldSchema ev field_type =
     (field_type = ''features'' \<or> field_type = ''references'' \<or> class_attr ev field_type)"

text \<open>
  \<^verbatim>\<open>profile_path = Path(link['href'])
  if not profile_path.is_absolute():
      profile_path = folder / profile_path\<close>
\<close>

definition resolve_href :: "env \<Rightarrow> string \<Rightarrow> json \<Rightarrow> error + string" where
  "resolve_href ev folder href =
     bindE (as_path href) (\<lambda>p.
     Inr (if is_absolute ev p then p else joinpath ev folder p))"

text \<open>
  The body of the loop of \<^verbatim>\<open>__parse_g_profile_info\<close> up to the generated statement: for a
  link whose relation starts with \<^verbatim>\<open>metadata\<close>, the field type, the field name and the
  profile read from the link's file; \<open>None\<close> for any other link.
\<close>

definition g_link_profile ::
  "env \<Rightarrow> string \<Rightarrow> json \<Rightarrow> error + (string \<times> string \<times> FieldProfileInfo) option" where
  "g_link_profile ev root_ctl_abs_folder link =
     bindE (subscript link ''rel'') (\<lambda>rel.
     bindE (startswith_json rel ''metadata'') (\<lambda>is_metadata.
     if \<not> is_metadata then Inr None else
     bindE (subscript link ''rel'') (\<lambda>rel.
     bindE (unpack_rel rel) (\<lambda>(field_type, field_name).
     bindE (subscript link ''href'') (\<lambda>href.
     bindE (resolve_href ev root_ctl_abs_folder href) (\<lambda>profile_path.
     bindE (read_json ev profile_path) (\<lambda>profile_metadata_d.
     if \<not> hasattr_FieldSchema ev field_type then Inl FieldTypeException else
     Inr (Some (field_type, field_name,
                \<lparr>fn_path = profile_path, metadata_d = profile_metadata_d,
                 data_asset_w_path = None, data_asset_info_d = None\<rparr>)))))))))"

text \<open>One pass of the loop of \<^verbatim>\<open>__parse_g_profile_info\<close>.\<close>

definition g_link_step ::
  "env \<Rightarrow> string \<Rightarrow> json \<Rightarrow> AllFieldMetadata \<Rightarrow> error + AllFieldMetadata" where
  "g_link_step ev root_ctl_abs_folder link all_field_metadata =
     bindE (g_link_profile ev root_ctl_abs_folder link) (\<lambda>r.
     case r of
       None \<Rightarrow> Inr all_field_metadata
     | Some (field_type, field_name, field_profile_info) \<Rightarrow>
         set_field_metadata ev all_field_metadata field_type field_name field_profile_info)"

text \<open>
  \<^verbatim>\<open>__parse_g_profile_info\<close>: the field schema is built first (and not used), then the
  links of the root document are visited in order, starting from two empty dictionaries.
\<close>

definition parse_g_profile_info :: "env \<Rightarrow> TDSRootCtlInfo \<Rightarrow> error + AllFieldMetadata" where
  "parse_g_profile_info ev tds_root_ctl_info =
     bindE (subscript (tds_root_metadata_d tds_root_ctl_info) ''field_schema'') (\<lambda>fs.
     bindE (FieldSchema_of fs) (\<lambda>_.
     bindE (dict_get (tds_root_metadata_d tds_root_ctl_info) ''links'') (\<lambda>links.
     bindE (iterate links) (\<lambda>link_l.
     foldE (g_link_step ev (parent ev (absolute ev (root_fn_path tds_root_ctl_info)))) link_l
       \<lparr>features = Map.empty, references = Map.empty\<rparr>))))"

text \<open>
  The asset of an AOI profile, in \<^verbatim>\<open>__parse_aoi_profile_info\<close>:
  \<^verbatim>\<open>if len(profile_metadata_d['assets']) != 1:
      raise Exception(f'Has different than 1 asset for file: {profile_path}')
  data_asset_name = list(profile_metadata_d['assets'].keys())[0]
  data_asset_info_d = profile_metadata_d['assets'][data_asset_name]
  data_asset_path = Path(data_asset_info_d['href'])
  if not data_asset_path.is_absolute():
      data_asset_path = aoi_collection_abs_folder / data_asset_path
      if not data_asset_path.is_file():
          raise Exception(f'{data_asset_path} doesnt point to an asset file')\<close>
  The result is the asset's path and its dictionary.
\<close>

definition parse_asset :: "env \<Rightarrow> string \<Rightarrow> json \<Rightarrow> error + string \<times> json" where
  "parse_asset ev aoi_collection_abs_folder profile_metadata_d =
     bindE (subscript profile_metadata_d ''assets'') (\<lambda>assets.
     bindE (len_json assets) (\<lambda>n.
     if n \<noteq> 1 then Inl AssetCountException else
     bindE (keys_json assets) (\<lambda>ks.
     bindE (subscript assets (hd ks)) (\<lambda>data_asset_info_d.
     bindE (subscript data_asset_info_d ''href'') (\<lambda>href.
     bindE (as_path href) (\<lambda>p.
     if is_absolute ev p then Inr (p, data_asset_info_d)
     else if is_file ev (joinpath ev aoi_collection_abs_folder p)
     then Inr (joinpath ev aoi_collection_abs_folder p, data_asset_info_d)
     else Inl NotAssetFileException))))))"

text \<open>
  The body of the loop of \<^verbatim>\<open>__parse_aoi_profile_info\<close> up to the generated statement.
\<close>

definition aoi_link_profile ::
  "env \<Rightarrow> string \<Rightarrow> json \<Rightarrow> error + (string \<times> string \<times> FieldProfileInfo) option" where
  "aoi_link_profile ev aoi_collection_abs_folder link =
     bindE (subscript link ''rel'') (\<lambda>rel.
     bindE (startswith_json rel ''metadata'') (\<lambda>is_metadata.
     if \<not> is_metadata then Inr None else
     bindE (subscript link ''rel'') (\<lambda>rel.
     bindE (unpack_rel rel) (\<lambda>(field_type, field_name).
     bindE (subscript link ''href'') (\<lambda>href.
     bindE (resolve_href ev aoi_collection_abs_folder href) (\<lambda>profile_path.
     bindE (read_json ev profile_path) (\<lambda>profile_metadata_d.
     if \<not> hasattr_FieldSchema ev field_type then Inl FieldTypeException else
     bindE (parse_asset ev aoi_collection_abs_folder profile_metadata_d)
       (\<lambda>(data_asset_path, asset_info).
     Inr (Some (field_type, field_name,
                \<lparr>fn_path = profile_path, metadata_d = profile_metadata_d,
                 data_asset_w_path = Some data_asset_path,
                 data_asset_info_d = Some asset_info\<rparr>))))))))))"

text \<open>One pass of the loop of \<^verbatim>\<open>__parse_aoi_profile_info\<close>.\<close>

definition aoi_link_step ::
  "env \<Rightarrow> string \<Rightarrow> json \<Rightarrow> AllFieldMetadata \<Rightarrow> error + AllFieldMetadata" where
  "aoi_link_step ev aoi_collection_abs_folder link all_field_metadata =
     bindE (aoi_link_profile ev aoi_collection_abs_folder link) (\<lambda>r.
     case r of
       None \<Rightarrow> Inr all_field_metadata
     | Some (field_type, field_name, field_profile_info) \<Rightarrow>
         set_field_metadata ev all_field_metadata field_type field_name field_profile_info)"

text \<open>\<^verbatim>\<open>__parse_aoi_profile_info\<close>.\<close>

definition parse_aoi_profile_info ::
  "env \<Rightarrow> AOICollectionInfo \<Rightarrow> TDSRootCtlInfo \<Rightarrow> error + AllFieldMetadata" where
  "parse_aoi_profile_info ev aoi_collection_info tds_root_ctl_info =
     bindE (subscript (tds_root_metadata_d tds_root_ctl_info) ''field_schema'') (\<lambda>fs.
     bindE (FieldSchema_of fs) (\<lambda>_.
     bindE (dict_get (aoi_collection_metadata_d aoi_collection_info) ''links'') (\<lambda>links.
     bindE (iterate links) (\<lambda>link_l.
     foldE (aoi_link_step ev (parent ev (absolute ev (aoi_fn_path aoi_collection_info)))) link_l
       \<lparr>features = Map.empty, references = Map.empty\<rparr>))))"

text \<open>
  One pass of the loop of \<^verbatim>\<open>__parse_aoi_subcollection_info\<close>:
  \<^verbatim>\<open>if link['rel'] == 'child':
      aoi_f_path = Path(link['href'])
      if not aoi_f_path.is_absolute():
          aoi_f_path = root_ctl_abs_folder / aoi_f_path
          if not aoi_f_path.is_file():
              raise Exception(f'{aoi_f_path} is not an aoi json file')
      with open(aoi_f_path, 'r') as aoi_f:
          aoi_collection_metadata_d = json.load(aoi_f)
      ...
      aoi_collection_info_l.append(aoi_collection_info)\<close>
\<close>

definition child_link_step ::
  "env \<Rightarrow> string \<Rightarrow> json \<Rightarrow> AOICollectionInfo list \<Rightarrow> error + AOICollectionInfo list" where
  "child_link_step ev root_ctl_abs_folder link l =
     bindE (subscript link ''rel'') (\<lambda>rel.
     if rel \<noteq> JStr ''child'' then Inr l else
     bindE (subscript link ''href'') (\<lambda>href.
     bindE (as_path href) (\<lambda>p.
     if \<not> is_absolute ev p \<and> \<not> is_file ev (joinpath ev root_ctl_abs_folder p)
     then Inl NotAoiFileException else
     bindE (read_json ev (if is_absolute ev p then p else joinpath ev root_ctl_abs_folder p))
       (\<lambda>d.
     Inr (l @ [\<lparr>aoi_fn_path = (if is_absolute ev p then p else joinpath ev root_ctl_abs_folder p),
                aoi_collection_metadata_d = d, aoi_all_field_metadata = None\<rparr>])))))"

text \<open>\<^verbatim>\<open>__parse_aoi_subcollection_info\<close>.\<close>

definition parse_aoi_subcollection_info ::
  "env \<Rightarrow> TDSRootCtlInfo \<Rightarrow> error + AOICollectionInfo list" where
  "parse_aoi_subcollection_info ev tds_root_ctl_info =
     bindE (dict_get (tds_root_metadata_d tds_root_ctl_info) ''links'') (\<lambda>links.
     bindE (iterate links) (\<lambda>link_l.
     foldE (child_link_step ev (parent ev (absolute ev (root_fn_path tds_root_ctl_info)))) link_l []))"

text \<open>\<^verbatim>\<open>add_field_schema\<close>.\<close>

definition add_field_schema :: "DatasetSTACCatalog \<Rightarrow> json \<Rightarrow> error + DatasetSTACCatalog" where
  "add_field_schema self field_schema_d =
     bindE (FieldSchema_of field_schema_d) (\<lambda>fs.
     Inr (self\<lparr>field_schema := Some fs, valid_field_schema := True\<rparr>))"

text \<open>
  \<^verbatim>\<open>from_TDSCatalog\<close>.  An exception raised anywhere leaves the method, and the object under
  construction with it: the result is the exception or the finished catalog.
\<close>

definition from_TDSCatalog :: "env \<Rightarrow> string \<Rightarrow> error + DatasetSTACCatalog" where
  "from_TDSCatalog ev tds_catalog_path =
     bindE (parse_root_tds_ctl_info ev tds_catalog_path) (\<lambda>info0.
     bindE (parse_g_profile_info ev info0) (\<lambda>g.
     (let tds_ctl_root_info' = info0\<lparr>g_all_field_metadata := Some g\<rparr>;
          o1 = DatasetSTACCatalog_init
                 \<lparr>tds_ctl_root_info := Some tds_ctl_root_info', valid_tds_root := True\<rparr>
      in
     bindE (dict_get (tds_root_metadata_d tds_ctl_root_info') ''field_schema'') (\<lambda>field_schema_d.
     bindE (add_field_schema o1 field_schema_d) (\<lambda>o2.
     bindE (parse_aoi_subcollection_info ev tds_ctl_root_info') (\<lambda>l.
     bindE (mapE (\<lambda>a. bindE (parse_aoi_profile_info ev a tds_ctl_root_info')
                        (\<lambda>m. Inr (a\<lparr>aoi_all_field_metadata := Some m\<rparr>))) l) (\<lambda>l'.
     Inr (o2\<lparr>aoi_collection_info_l := l', valid_tds := True\<rparr>))))))))"

subsection \<open>Compliance level and completeness\<close>

text \<open>
  \<^verbatim>\<open>compute_compliance_level\<close>.  The first argument is the module-level dictionary
  \<^verbatim>\<open>ext_to_metadata_req_info_d\<close>.  \<^verbatim>\<open>assert self.valid_tds\<close> raises AssertionError;
  reading an attribute that was never assigned raises AttributeError.
\<close>

definition compute_compliance_level ::
  "(string \<rightharpoonup> MetadataRequirementInfo) \<Rightarrow> DatasetSTACCatalog \<Rightarrow> error + int" where
  "compute_compliance_level req_d self =
     (if \<not> valid_tds self then Inl AssertionError else
      case tds_ctl_root_info self of
        None \<Rightarrow> Inl AttributeError
      | Some info \<Rightarrow>
          bindE (keys_json (tds_root_metadata_d info)) (\<lambda>ks.
          case req_d ''aireo_tds_core'' of
            None \<Rightarrow> Inl KeyError
          | Some tds_core_metadata_req_info \<Rightarrow>
              (let available_root_metadata = set ks;
                   common_root_recommended_metadata =
                     available_root_metadata \<inter> recommended_metadata_set tds_core_metadata_req_info;
                   common_root_optional_metadata =
                     available_root_metadata \<inter> optional_metadata_set tds_core_metadata_req_info;
                   level1 = 1;
                   level2 =
                     (if card common_root_recommended_metadata =
                         card (recommended_metadata_set tds_core_metadata_req_info)
                      then 2 else level1);
                   level3 =
                     (if level2 = 2 \<and>
                         card common_root_optional_metadata =
                         card (optional_metadata_set tds_core_metadata_req_info)
                      then 3 else level2)
               in Inr level3)))"

text \<open>
  Python's \<^verbatim>\<open>a / b\<close> on two lengths: true division, the double nearest to the quotient,
  ZeroDivisionError for a zero divisor.
\<close>

definition len_truediv :: "nat \<Rightarrow> nat \<Rightarrow> error + rat" where
  "len_truediv a b = true_div (int a) (int b)"

text \<open>
  The inner dictionary \<^verbatim>\<open>report_metadata_completeness\<close> returns under the key
  \<^verbatim>\<open>'tds_core_metadata'\<close>; each of the three values is a double.
\<close>

record completeness =
  required_metadata :: rat
  recommended_metadata :: rat
  optional_metadata :: rat

text \<open>\<^verbatim>\<open>report_metadata_completeness\<close>.\<close>

definition report_metadata_completeness ::
  "(string \<rightharpoonup> MetadataRequirementInfo) \<Rightarrow> DatasetSTACCatalog \<Rightarrow> error + completeness" where
  "report_metadata_completeness req_d self =
     (if \<not> valid_tds self then Inl AssertionError else
      case tds_ctl_root_info self of
        None \<Rightarrow> Inl AttributeError
      | Some info \<Rightarrow>
          bindE (keys_json (tds_root_metadata_d info)) (\<lambda>ks.
          case req_d ''aireo_tds_core'' of
            None \<Rightarrow> Inl KeyError
          | Some tds_core_metadata_req_info \<Rightarrow>
              bindE (len_truediv
                       (card (set ks \<inter> required_metadata_set tds_core_metadata_req_info))
                       (card (required_metadata_set tds_core_metadata_req_info)))
                (\<lambda>pct_root_required_metadata.
              bindE (len_truediv
                       (card (set ks \<inter> recommended_metadata_set tds_core_metadata_req_info))
                       (card (recommended_metadata_set tds_core_metadata_req_info)))
                (\<lambda>pct_root_recommended_metadata.
              bindE (len_truediv
                       (card (set ks \<inter> optional_metadata_set tds_core_metadata_req_info))
                       (card (optional_metadata_set tds_core_metadata_req_info)))
                (\<lambda>pct_root_optional_metadata.
              Inr \<lparr>required_metadata = pct_root_required_metadata,
                   recommended_metadata = pct_root_recommended_metadata,
                   optional_metadata = pct_root_optional_metadata\<rparr>)))))"

text \<open>
  The fraction of a tier as the specification words it: \<open>|present \<inter> tier| / |tier|\<close>, and
  \<open>1\<close> for a tier of size 0.
\<close>

definition spec_fraction :: "string set \<Rightarrow> string set \<Rightarrow> rat" where
  "spec_fraction present tier =
     (if card tier = 0 then 1 else of_nat (card (present \<inter> tier)) / of_nat (card tier))"

subsection \<open>Writing a catalog\<close>

text \<open>
  The file system the writer changes: the directories and the files, with their contents,
  under paths given by their components.  The empty path is the directory a relative path
  starts from, which always exists.
\<close>

record fsys =
  dirs :: "string list set"
  files :: "string list \<rightharpoonup> string"

definition path_exists :: "fsys \<Rightarrow> string list \<Rightarrow> bool" where
  "path_exists fs p = (p = [] \<or> p \<in> dirs fs \<or> files fs p \<noteq> None)"

text \<open>
  \<^verbatim>\<open>Path.mkdir(parents=True)\<close>, with \<^verbatim>\<open>exist_ok\<close> left at \<^verbatim>\<open>False\<close>: FileExistsError when
  the path exists, as a directory or as a file; otherwise the directory and its missing
  ancestors are made, unless an ancestor is a file.
\<close>

definition mkdir_parents :: "string list \<Rightarrow> fsys \<Rightarrow> error + fsys" where
  "mkdir_parents p fs =
     (if path_exists fs p then Inl FileExistsError
      else if list_ex (\<lambda>n. files fs (take n p) \<noteq> None) [0 ..< length p] then Inl OSError
      else Inr (fs\<lparr>dirs := dirs fs \<union> set (map (\<lambda>n. take n p) [1 ..< Suc (length p)])\<rparr>))"

text \<open>
  \<^verbatim>\<open>write_TDS_STAC_Catalog\<close>, from the assertion to the making of the root directory:
  \<^verbatim>\<open>assert self.valid_tds
  catalog_fn_w_path = Path(catalog_fn_w_path)
  tds_catalog_root_folder = catalog_fn_w_path.parent
  tds_catalog_root_fn = catalog_fn_w_path.name
  # make root directory, needs to be a new directory
  tds_catalog_root_folder.mkdir(parents=True)\<close>
  Everything the method does after that (the data sheet, the profile files, the AOI
  subdirectories, the root document) is the argument \<open>rest\<close>, run on the file system that
  has the new directory.  The result is the file system left behind and the exception, if
  one was raised.
\<close>

definition write_TDS_STAC_Catalog ::
  "(DatasetSTACCatalog \<Rightarrow> string list \<Rightarrow> fsys \<Rightarrow> fsys \<times> error option) \<Rightarrow>
   DatasetSTACCatalog \<Rightarrow> string list \<Rightarrow> fsys \<Rightarrow> fsys \<times> error option" where
  "write_TDS_STAC_Catalog rest self catalog_fn_w_path fs =
     (if \<not> valid_tds self then (fs, Some AssertionError) else
      case mkdir_parents (butlast catalog_fn_w_path) fs of
        Inl e \<Rightarrow> (fs, Some e)
      | Inr fs' \<Rightarrow> rest self catalog_fn_w_path fs')"

subsection \<open>Notions the statements about loading use\<close>

text \<open>
  The links the loading loops visit in a document: the elements of \<^verbatim>\<open>d.get('links')\<close>
  (none when the loop cannot start).
\<close>

definition doc_links :: "json \<Rightarrow> json list" where
  "doc_links d =
     (case dict_get d ''links'' of
        Inl _ \<Rightarrow> []
      | Inr v \<Rightarrow> (case iterate v of Inl _ \<Rightarrow> [] | Inr l \<Rightarrow> l))"

text \<open>
  A link whose relation is a string that starts with \<^verbatim>\<open>metadata\<close> and does not consist of
  exactly three tokens between slashes.
\<close>

definition malformed_relation :: "json \<Rightarrow> bool" where
  "malformed_relation link =
     (case subscript link ''rel'' of
        Inr (JStr rel) \<Rightarrow> startswith rel ''metadata'' \<and> length (split_on (CHR ''/'') rel) \<noteq> 3
      | _ \<Rightarrow> False)"

text \<open>A profile document whose \<^verbatim>\<open>assets\<close> has exactly one entry.\<close>

definition one_asset :: "json \<Rightarrow> bool" where
  "one_asset profile_metadata_d =
     (case subscript profile_metadata_d ''assets'' of
        Inr assets \<Rightarrow> len_json assets = Inr 1
      | Inl _ \<Rightarrow> False)"

text \<open>
  A field-metadata map all of whose profiles have exactly one asset.
\<close>

definition admitted_one_asset :: "AllFieldMetadata \<Rightarrow> bool" where
  "admitted_one_asset m =
     (\<forall>n info. features m n = Some info \<or> references m n = Some info \<longrightarrow>
        one_asset (metadata_d info))"



section \<open>Example data\<close>

text \<open>
  The specification's example of a requirement table: \<open>required = {a, b}\<close>,
  \<open>recommended = {c}\<close>, \<open>optional = {d}\<close>, given as the configuration the module reads;
  a second configuration with no optional name; and a validated catalog whose root
  document has the keys \<open>a\<close> and \<open>c\<close>.
\<close>

definition cfg_abcd :: "(string \<times> (string \<times> string) list) list" where
  "cfg_abcd = [(''aireo_tds_core'',
       [(''a'', ''required''), (''b'', ''required''), (''c'', ''recommended''), (''d'', ''optional'')])]"

definition cfg_abc :: "(string \<times> (string \<times> string) list) list" where
  "cfg_abc = [(''aireo_tds_core'',
       [(''a'', ''required''), (''b'', ''required''), (''c'', ''recommended'')])]"

definition catalog_ac :: DatasetSTACCatalog where
  "catalog_ac = DatasetSTACCatalog_init
     \<lparr>valid_tds := True,
      tds_ctl_root_info := Some \<lparr>root_fn_path = ''/tds/catalog.json'',
         tds_root_metadata_d = JObj [(''a'', JStr ''x''), (''c'', JStr ''y'')],
         g_all_field_metadata = None\<rparr>\<rparr>"

text \<open>
  A file system in which the directory \<^verbatim>\<open>/out\<close> exists and holds a catalog file.
\<close>

definition fs_out :: fsys where
  "fs_out = \<lparr>dirs = {[''/''], [''/'', ''out'']},
             files = [[''/'', ''out'', ''catalog.json''] \<mapsto> ''{}'']\<rparr>"

text \<open>
  A small file system for the loader: the documents by their absolute paths and the other
  files that exist.  Paths are joined with a slash and brought to the form \<^verbatim>\<open>pathlib\<close>
  keeps them in, without empty components and without components that are a single dot;
  files are looked up under that form; the current directory is the root; the parent
  directory of a path is the path up to its last slash.  No name but \<^verbatim>\<open>features\<close> and \<^verbatim>\<open>references\<close> is taken to be an
  attribute of \<^verbatim>\<open>FieldSchema\<close>, and every statement generated for a name that is not plain
  is taken to be a SyntaxError.
\<close>

definition dirname :: "string \<Rightarrow> string" where
  "dirname p = rev (drop 1 (dropWhile (\<lambda>c. c \<noteq> CHR ''/'') (rev p)))"

fun join_slash :: "string list \<Rightarrow> string" where
  "join_slash [] = []"
| "join_slash [c] = c"
| "join_slash (c # cs) = c @ ''/'' @ join_slash cs"

definition normpath :: "string \<Rightarrow> string" where
  "normpath p =
     (if startswith p ''/'' then ''/'' else []) @
     join_slash (filter (\<lambda>c. c \<noteq> [] \<and> c \<noteq> ''.'') (split_on (CHR ''/'') p))"

definition env_of :: "(string \<times> json) list \<Rightarrow> string list \<Rightarrow> env" where
  "env_of docs others =
     \<lparr>read_json = (\<lambda>p. case map_of docs (normpath p) of None \<Rightarrow> Inl OSError | Some d \<Rightarrow> Inr d),
      is_file = (\<lambda>p. normpath p \<in> set (map fst docs) \<or> normpath p \<in> set others),
      is_absolute = (\<lambda>p. startswith p ''/''),
      joinpath = (\<lambda>a b. normpath (a @ ''/'' @ b)),
      absolute = (\<lambda>p. if startswith p ''/'' then normpath p else normpath (''/'' @ p)),
      parent = dirname,
      class_attr = (\<lambda>_. False),
      exec_other = (\<lambda>_ _. Inl SyntaxError)\<rparr>"

text \<open>
  A link, a root document with a field schema and the given links, and the files of a
  catalog under \<^verbatim>\<open>/t\<close> with two global profiles \<^verbatim>\<open>a.json\<close> and \<^verbatim>\<open>b.json\<close>.
\<close>

definition lnk :: "string \<Rightarrow> string \<Rightarrow> json" where
  "lnk r h = JObj [(''rel'', JStr r), (''href'', JStr h)]"

definition root_doc :: "json list \<Rightarrow> json" where
  "root_doc links =
     JObj [(''field_schema'',
            JObj [(''features'', JObj [(''input1'', JArr [])]), (''references'', JObj [])]),
           (''links'', JArr links)]"

definition files_root :: "json list \<Rightarrow> (string \<times> json) list" where
  "files_root links =
     [(''/t/c.json'', root_doc links),
      (''/t/a.json'', JObj [(''id'', JStr ''a'')]),
      (''/t/b.json'', JObj [(''id'', JStr ''b'')])]"

definition root_info :: "json list \<Rightarrow> TDSRootCtlInfo" where
  "root_info links =
     \<lparr>root_fn_path = ''/t/c.json'', tds_root_metadata_d = root_doc links,
      g_all_field_metadata = None\<rparr>"

text \<open>
  Three link lists: one that names the feature \<^verbatim>\<open>input1\<close> twice, the same without the
  earlier of the two links, and one with the two-token relation \<^verbatim>\<open>metadata/input1\<close>; and
  the profile entries the loader makes of \<^verbatim>\<open>a.json\<close> and \<^verbatim>\<open>b.json\<close>.
\<close>

definition links_dup :: "json list" where
  "links_dup = [lnk ''self'' ''c.json'', lnk ''metadata/features/input1'' ''a.json'',
                lnk ''metadata/features/input1'' ''b.json'']"


definition links_bad :: "json list" where
  "links_bad = [lnk ''self'' ''c.json'', lnk ''metadata/input1'' ''a.json'']"

definition info_a :: FieldProfileInfo where
  "info_a = \<lparr>fn_path = ''/t/a.json'', metadata_d = JObj [(''id'', JStr ''a'')],
            data_asset_w_path = None, data_asset_info_d = None\<rparr>"


text \<open>
  A catalog with one AOI, whose single field profile \<^verbatim>\<open>f.json\<close> has the given assets.
\<close>

definition files_aoi :: "(string \<times> json) list \<Rightarrow> (string \<times> json) list" where
  "files_aoi assets =
     [(''/t/c.json'', root_doc [lnk ''self'' ''c.json'', lnk ''child'' ''aoi1/aoi1.json'']),
      (''/t/aoi1/aoi1.json'',
         JObj [(''id'', JStr ''aoi1''),
               (''links'', JArr [lnk ''metadata/features/input1'' ''f.json''])]),
      (''/t/aoi1/f.json'', JObj [(''id'', JStr ''f''), (''assets'', JObj assets)])]"

definition asset_img :: json where
  "asset_img = JObj [(''href'', JStr ''img.tif'')]"

text \<open>
  The entry the loader makes of \<^verbatim>\<open>f.json\<close> with the single asset \<^verbatim>\<open>img.tif\<close>; the
  environment of that catalog; and the same catalog with the two-token relation
  \<^verbatim>\<open>metadata/input1\<close> in the AOI document.
\<close>

definition info_f :: FieldProfileInfo where
  "info_f = \<lparr>fn_path = ''/t/aoi1/f.json'',
            metadata_d = JObj [(''id'', JStr ''f''), (''assets'', JObj [(''data'', asset_img)])],
            data_asset_w_path = Some ''/t/aoi1/img.tif'', data_asset_info_d = Some asset_img\<rparr>"

definition env_aoi :: env where
  "env_aoi = env_of (files_aoi [(''data'', asset_img)]) [''/t/aoi1/img.tif'']"

definition files_aoi_bad :: "(string \<times> json) list" where
  "files_aoi_bad =
     [(''/t/c.json'', root_doc [lnk ''self'' ''c.json'', lnk ''child'' ''aoi1/aoi1.json'']),
      (''/t/aoi1/aoi1.json'',
         JObj [(''id'', JStr ''aoi1''),
               (''links'', JArr [lnk ''metadata/input1'' ''f.json''])]),
      (''/t/aoi1/f.json'',
         JObj [(''id'', JStr ''f''), (''assets'', JObj [(''data'', asset_img)])])]"

section \<open>Properties of the training dataset facade\<close>

lemma offset_take: "k \<le> length cs \<Longrightarrow> offset cs k = sum_list (take k cs)"
  by (induction k) (simp_all add: take_Suc_conv_app_nth)

lemma offset_mono: "j \<le> k \<Longrightarrow> offset cs j \<le> offset cs k"
  by (induction k) (auto simp: le_Suc_eq)

lemma offset_Cons_Suc: "offset (c # cs) (Suc k) = c + offset cs k"
  by (induction k) simp_all

lemma start_idx_loop_spec:
  "k + length ds \<le> length arr \<Longrightarrow>
   start_idx_loop ds k n arr = (arr', n') \<Longrightarrow>
   n' = n + sum_list (map get_length ds) \<and> length arr' = length arr \<and>
   (\<forall>j < length ds. arr' ! (k + j) = n + offset (map get_length ds) j) \<and>
   (\<forall>i. i < k \<or> k + length ds \<le> i \<longrightarrow> arr' ! i = arr ! i)"
proof (induction ds arbitrary: k n arr)
  case Nil
  then show ?case by simp
next
  case (Cons d ds)
  from Cons.prems have len: "Suc k + length ds \<le> length (arr[k := n])" by simp
  from Cons.prems have run: "start_idx_loop ds (Suc k) (n + get_length d) (arr[k := n]) = (arr', n')"
    by simp
  note IH = Cons.IH [OF len run]
  have a: "n' = n + sum_list (map get_length (d # ds))" using IH by simp
  have b: "length arr' = length arr" using IH by simp
  have c: "arr' ! (k + j) = n + offset (map get_length (d # ds)) j" if "j < length (d # ds)" for j
  proof (cases j)
    case 0
    have "arr' ! k = (arr[k := n]) ! k" using IH by simp
    then show ?thesis using 0 Cons.prems by simp
  next
    case (Suc m)
    then have "m < length ds" using that by simp
    then have "arr' ! (Suc k + m) = n + get_length d + offset (map get_length ds) m"
      using IH by blast
    then show ?thesis using Suc by (simp add: offset_Cons_Suc del: offset.simps)
  qed
  have d: "arr' ! i = arr ! i" if "i < k \<or> k + length (d # ds) \<le> i" for i
  proof -
    have "arr' ! i = (arr[k := n]) ! i" using IH that by auto
    then show ?thesis using that by auto
  qed
  show ?case using a b c d by blast
qed

lemma fold_update_upt:
  "e \<le> length tbl \<Longrightarrow>
   length (fold (\<lambda>t tb. tb[t := f t]) [s ..< e] tbl) = length tbl \<and>
   (\<forall>i < length tbl. fold (\<lambda>t tb. tb[t := f t]) [s ..< e] tbl ! i =
      (if s \<le> i \<and> i < e then f i else tbl ! i))"
proof (induction e)
  case 0
  then show ?case by simp
next
  case (Suc e)
  then show ?case by (cases "s \<le> e") (auto simp: nth_list_update less_Suc_eq)
qed

lemma fill_aoi_spec:
  "e \<le> length tbl \<Longrightarrow>
   length (fill_aoi k s e tbl) = length tbl \<and>
   (\<forall>i < length tbl. fill_aoi k s e tbl ! i =
      (if s \<le> i \<and> i < e then Some \<lparr>aoi_idx = k, aoi_ex_idx = i - s\<rparr> else tbl ! i))"
  unfolding fill_aoi_def by (rule fold_update_upt)

lemma fill_table_spec:
  "\<forall>k < n. arr ! k \<le> arr ! (k + 1) \<Longrightarrow> arr ! n \<le> length tbl \<Longrightarrow> arr ! 0 = 0 \<Longrightarrow>
   length (fill_table arr n tbl) = length tbl \<and>
   (\<forall>i < length tbl. 
      if i < arr ! n
      then (\<exists>k < n. arr ! k \<le> i \<and> i < arr ! (k + 1) \<and>
              fill_table arr n tbl ! i = Some \<lparr>aoi_idx = k, aoi_ex_idx = i - arr ! k\<rparr>)
      else fill_table arr n tbl ! i = tbl ! i)"
proof (induction n)
  case 0
  then show ?case by (simp add: fill_table_def)
next
  case (Suc n)
  have step: "fill_table arr (Suc n) tbl = fill_aoi n (arr ! n) (arr ! (n + 1)) (fill_table arr n tbl)"
    by (simp add: fill_table_def)
  have mono: "arr ! n \<le> arr ! (n + 1)" using Suc.prems by simp
  have IH: "length (fill_table arr n tbl) = length tbl \<and>
   (\<forall>i < length tbl. 
      if i < arr ! n
      then (\<exists>k < n. arr ! k \<le> i \<and> i < arr ! (k + 1) \<and>
              fill_table arr n tbl ! i = Some \<lparr>aoi_idx = k, aoi_ex_idx = i - arr ! k\<rparr>)
      else fill_table arr n tbl ! i = tbl ! i)"
    using Suc.prems mono by (intro Suc.IH) auto
  have e: "arr ! (n + 1) \<le> length (fill_table arr n tbl)" using IH Suc.prems by simp
  note fa = fill_aoi_spec [OF e, of n "arr ! n"]
  have len: "length (fill_table arr (Suc n) tbl) = length tbl" using fa IH step by simp
  have pt: "if i < arr ! Suc n
      then (\<exists>k < Suc n. arr ! k \<le> i \<and> i < arr ! (k + 1) \<and>
              fill_table arr (Suc n) tbl ! i = Some \<lparr>aoi_idx = k, aoi_ex_idx = i - arr ! k\<rparr>)
      else fill_table arr (Suc n) tbl ! i = tbl ! i" if i: "i < length tbl" for i
  proof -
    have v: "fill_table arr (Suc n) tbl ! i =
      (if arr ! n \<le> i \<and> i < arr ! (n + 1) then Some \<lparr>aoi_idx = n, aoi_ex_idx = i - arr ! n\<rparr>
       else fill_table arr n tbl ! i)"
      using fa IH step i by simp
    consider "i < arr ! n" | "arr ! n \<le> i" "i < arr ! (n + 1)" | "arr ! (n + 1) \<le> i" by linarith
    then show ?thesis
    proof cases
      case 1
      then obtain k where "k < n" "arr ! k \<le> i" "i < arr ! (k + 1)"
        "fill_table arr n tbl ! i = Some \<lparr>aoi_idx = k, aoi_ex_idx = i - arr ! k\<rparr>"
        using IH i by (metis (no_types, lifting))
      then show ?thesis using v 1 mono by (auto intro!: exI [of _ k])
    next
      case 2
      then show ?thesis using v by (auto intro!: exI [of _ n])
    next
      case 3
      then have "\<not> i < arr ! n" using mono by simp
      then have "fill_table arr n tbl ! i = tbl ! i" using IH i by (metis (no_types, lifting))
      then show ?thesis using v 3 by simp
    qed
  qed
  show ?case using len pt by blast
qed


lemma offset_unique:
  "offset cs k \<le> i \<Longrightarrow> i < offset cs (Suc k) \<Longrightarrow>
   offset cs k' \<le> i \<Longrightarrow> i < offset cs (Suc k') \<Longrightarrow> k = k'"
proof (rule ccontr)
  assume a: "offset cs k \<le> i" "i < offset cs (Suc k)" "offset cs k' \<le> i" "i < offset cs (Suc k')"
  assume "k \<noteq> k'"
  then consider "Suc k \<le> k'" | "Suc k' \<le> k" by linarith
  then show False
  proof cases
    case 1
    from offset_mono [OF 1, of cs] a show False by simp
  next
    case 2
    from offset_mono [OF 2, of cs] a show False by simp
  qed
qed

lemma compute_ds_length_spec:
  assumes run: "compute_ds_length ds_l = (n, tbl)"
  shows "n = sum_list (map get_length ds_l) \<and> length tbl = n \<and>
    (\<forall>i < n. \<exists>k < length ds_l.
        offset (map get_length ds_l) k \<le> i \<and> i < offset (map get_length ds_l) (Suc k) \<and>
        tbl ! i = Some \<lparr>aoi_idx = k, aoi_ex_idx = i - offset (map get_length ds_l) k\<rparr>)"
proof -
  define cs where "cs = map get_length ds_l"
  define N where "N = length ds_l"
  obtain arr0 n0 where loop: "start_idx_loop ds_l 0 0 (replicate (N + 1) 0) = (arr0, n0)"
    by (cases "start_idx_loop ds_l 0 0 (replicate (N + 1) 0)") blast
  define arr where "arr = arr0[N := n0]"
  have res: "n = n0" "tbl = fill_table arr N (replicate n0 None)"
    using run loop by (auto simp: compute_ds_length_def N_def arr_def)
  have pre: "0 + length ds_l \<le> length (replicate (N + 1) (0::nat))" by (simp add: N_def)
  note L = start_idx_loop_spec [OF pre loop]
  have n0: "n0 = sum_list cs" using L by (simp add: cs_def)
  have len0: "length arr0 = N + 1" using L by simp
  have low: "arr ! k = offset cs k" if "k < N" for k
  proof -
    have "arr0 ! (0 + k) = 0 + offset cs k" using L that unfolding cs_def N_def by blast
    then show ?thesis using that by (simp add: arr_def)
  qed
  have top: "arr ! N = offset cs N"
    using len0 n0 by (simp add: arr_def offset_take cs_def N_def)
  have all: "arr ! k = offset cs k" if "k \<le> N" for k
    using that low top by (cases "k = N") auto
  have mono: "\<forall>k < N. arr ! k \<le> arr ! (k + 1)"
    by (auto simp: all offset_mono simp del: offset.simps)
  have bound: "arr ! N \<le> length (replicate n0 (None :: TDSExIdx2AOIIndexMap option))"
    using top n0 by (simp add: offset_take cs_def N_def)
  have zero: "arr ! 0 = 0" using all [of 0] by simp
  note T = fill_table_spec [OF mono bound zero]
  have lt: "length tbl = n" using T res by simp
  have arrN: "arr ! N = n" using top n0 res by (simp add: offset_take cs_def N_def)
  have pt: "\<exists>k < N. offset cs k \<le> i \<and> i < offset cs (Suc k) \<and>
        tbl ! i = Some \<lparr>aoi_idx = k, aoi_ex_idx = i - offset cs k\<rparr>" if "i < n" for i
  proof -
    have i: "i < length (replicate n0 (None :: TDSExIdx2AOIIndexMap option))" using that res by simp
    have "\<exists>k < N. arr ! k \<le> i \<and> i < arr ! (k + 1) \<and>
              fill_table arr N (replicate n0 None) ! i = Some \<lparr>aoi_idx = k, aoi_ex_idx = i - arr ! k\<rparr>"
      using T i that arrN by (metis (no_types, lifting))
    then obtain k where k: "k < N" "arr ! k \<le> i" "i < arr ! (k + 1)"
       "tbl ! i = Some \<lparr>aoi_idx = k, aoi_ex_idx = i - arr ! k\<rparr>"
      using res by blast
    have "arr ! k = offset cs k" "arr ! (k + 1) = offset cs (Suc k)"
      using k(1) all [of k] all [of "k + 1"] by simp_all
    then show ?thesis using k by (auto simp del: offset.simps)
  qed
  show ?thesis using res(1) n0 lt pt unfolding cs_def N_def by blast
qed


lemma init_table:
  "tds_ex_idx_2_aoi_ex_idx (EOTrainingDataset_init ds_l) = snd (compute_ds_length ds_l)"
  "n_exs (EOTrainingDataset_init ds_l) = fst (compute_ds_length ds_l)"
  "aoi_ds_l (EOTrainingDataset_init ds_l) = ds_l"
  by (simp_all add: EOTrainingDataset_init_def split: prod.splits)

lemma init_resolve:
  assumes k: "k < length ds_l"
    and lo: "offset (map get_length ds_l) k \<le> i"
    and hi: "i < offset (map get_length ds_l) (Suc k)"
  shows "i < length (tds_ex_idx_2_aoi_ex_idx (EOTrainingDataset_init ds_l)) \<and>
    tds_ex_idx_2_aoi_ex_idx (EOTrainingDataset_init ds_l) ! i =
      Some \<lparr>aoi_idx = k, aoi_ex_idx = i - offset (map get_length ds_l) k\<rparr>"
proof -
  define cs where "cs = map get_length ds_l"
  obtain n tbl where run: "compute_ds_length ds_l = (n, tbl)"
    by (cases "compute_ds_length ds_l") blast
  note S = compute_ds_length_spec [OF run]
  have "offset cs (Suc k) \<le> offset cs (length cs)"
    using k by (intro offset_mono) (simp add: cs_def)
  then have i: "i < n" using hi S by (simp add: offset_take cs_def del: offset.simps)
  then obtain k' where k': "k' < length ds_l" "offset cs k' \<le> i" "i < offset cs (Suc k')"
     "tbl ! i = Some \<lparr>aoi_idx = k', aoi_ex_idx = i - offset cs k'\<rparr>"
    using S unfolding cs_def by blast
  have "k' = k" using offset_unique [OF k'(2,3)] lo hi unfolding cs_def by blast
  then show ?thesis using k' i S run by (simp add: init_table cs_def del: offset.simps)
qed

lemma init_total:
  "i < sum_list (map get_length (ds_l :: 'ex AOIDataset list)) \<Longrightarrow>
   \<exists>k < length ds_l. offset (map get_length ds_l) k \<le> i \<and> i < offset (map get_length ds_l) (Suc k)"
proof -
  assume i: "i < sum_list (map get_length ds_l)"
  obtain n tbl where run: "compute_ds_length ds_l = (n, tbl)"
    by (cases "compute_ds_length ds_l") blast
  note S = compute_ds_length_spec [OF run]
  from i S have "i < n" by simp
  then show ?thesis using S by blast
qed

lemma init_len:
  "EOTrainingDataset_len (EOTrainingDataset_init ds_l) = sum_list (map get_length ds_l)"
  "length (tds_ex_idx_2_aoi_ex_idx (EOTrainingDataset_init ds_l)) = sum_list (map get_length ds_l)"
proof -
  obtain n tbl where run: "compute_ds_length ds_l = (n, tbl)"
    by (cases "compute_ds_length ds_l") blast
  note S = compute_ds_length_spec [OF run]
  show "EOTrainingDataset_len (EOTrainingDataset_init ds_l) = sum_list (map get_length ds_l)"
    using S run by (simp add: EOTrainingDataset_len_def init_table)
  show "length (tds_ex_idx_2_aoi_ex_idx (EOTrainingDataset_init ds_l)) = sum_list (map get_length ds_l)"
    using S run by (simp add: init_table)
qed

lemma EOTrainingDataset_index_map_aux:
  "k < length ds_l \<Longrightarrow> offset (map get_length ds_l) k \<le> i \<Longrightarrow>
   i < offset (map get_length ds_l) (Suc k) \<Longrightarrow>
   EOTrainingDataset_getitem (EOTrainingDataset_init ds_l) (int i) =
     getitem (ds_l ! k) (int (i - offset (map get_length ds_l) k))"
  using init_resolve [of k ds_l i]
  by (simp add: EOTrainingDataset_getitem_def np_getitem_def init_table(3) del: offset.simps)

text \<open>
  Claim C1.  For a training dataset built over the AOI datasets \<open>ds_l\<close>, with local example
  counts \<open>cs\<close>: \<^verbatim>\<open>__len__\<close> is the sum of the counts; every index \<open>i\<close> below that sum
  lies in exactly one interval \<open>offset[k] \<le> i < offset[k+1]\<close>; and for that \<open>k\<close> the table
  built at construction holds the pair \<open>(k, i - offset[k])\<close> at position \<open>i\<close>, so that
  \<^verbatim>\<open>__getitem__(i)\<close> and \<^verbatim>\<open>get_example(i)\<close> return what AOI dataset \<open>k\<close> returns at local
  index \<open>i - offset[k]\<close>.
\<close>

theorem EOTrainingDataset_index_map:
  fixes ds_l :: "'ex AOIDataset list"
  defines "cs \<equiv> map get_length ds_l" and "self \<equiv> EOTrainingDataset_init ds_l"
  shows "EOTrainingDataset_len self = sum_list cs \<and>
    (\<forall>i < sum_list cs. \<exists>!k. k < length ds_l \<and> offset cs k \<le> i \<and> i < offset cs (Suc k)) \<and>
    (\<forall>i k. k < length ds_l \<and> offset cs k \<le> i \<and> i < offset cs (Suc k) \<longrightarrow>
       np_getitem (tds_ex_idx_2_aoi_ex_idx self) (int i) =
         Inr (Some \<lparr>aoi_idx = k, aoi_ex_idx = i - offset cs k\<rparr>) \<and>
       EOTrainingDataset_getitem self (int i) = getitem (ds_l ! k) (int (i - offset cs k)) \<and>
       get_example self (int i) = getitem (ds_l ! k) (int (i - offset cs k)))"
proof (intro conjI allI impI)
  show "EOTrainingDataset_len self = sum_list cs"
    by (simp add: init_len cs_def self_def)
next
  fix i assume "i < sum_list cs"
  then obtain k where k: "k < length ds_l" "offset cs k \<le> i" "i < offset cs (Suc k)"
    using init_total [of i ds_l] unfolding cs_def by blast
  show "\<exists>!k. k < length ds_l \<and> offset cs k \<le> i \<and> i < offset cs (Suc k)"
  proof (rule ex1I [of _ k])
    show "k < length ds_l \<and> offset cs k \<le> i \<and> i < offset cs (Suc k)" using k by blast
  next
    fix k' assume "k' < length ds_l \<and> offset cs k' \<le> i \<and> i < offset cs (Suc k')"
    then show "k' = k" using offset_unique [of cs k' i k] k by blast
  qed
next
  fix i k assume a: "k < length ds_l \<and> offset cs k \<le> i \<and> i < offset cs (Suc k)"
  then have R: "i < length (tds_ex_idx_2_aoi_ex_idx self)"
    "tds_ex_idx_2_aoi_ex_idx self ! i = Some \<lparr>aoi_idx = k, aoi_ex_idx = i - offset cs k\<rparr>"
    using init_resolve [of k ds_l i] unfolding cs_def self_def by blast+
  then show lookup: "np_getitem (tds_ex_idx_2_aoi_ex_idx self) (int i) =
         Inr (Some \<lparr>aoi_idx = k, aoi_ex_idx = i - offset cs k\<rparr>)"
    by (simp add: np_getitem_def)
  show g: "EOTrainingDataset_getitem self (int i) = getitem (ds_l ! k) (int (i - offset cs k))"
    using a by (simp add: EOTrainingDataset_getitem_def lookup) (simp add: self_def init_table)
  show "get_example self (int i) = getitem (ds_l ! k) (int (i - offset cs k))"
    using g by (simp add: get_example_def)
qed

text \<open>
  The specification's example: two AOIs of lengths 3 and 5; index 2 is local index 2 of the
  first, index 3 is local index 0 of the second, index 7 is local index 4 of the second.
\<close>

theorem EOTrainingDataset_index_map_witness:
  "EOTrainingDataset_len (EOTrainingDataset_init
      [\<lparr>get_length = 3, getitem = (\<lambda>j. Inr (0::nat, j))\<rparr>,
       \<lparr>get_length = 5, getitem = (\<lambda>j. Inr (1, j))\<rparr>]) = 8 \<and>
   EOTrainingDataset_getitem (EOTrainingDataset_init
      [\<lparr>get_length = 3, getitem = (\<lambda>j. Inr (0::nat, j))\<rparr>,
       \<lparr>get_length = 5, getitem = (\<lambda>j. Inr (1, j))\<rparr>]) 2 = Inr (0, 2) \<and>
   EOTrainingDataset_getitem (EOTrainingDataset_init
      [\<lparr>get_length = 3, getitem = (\<lambda>j. Inr (0::nat, j))\<rparr>,
       \<lparr>get_length = 5, getitem = (\<lambda>j. Inr (1, j))\<rparr>]) 3 = Inr (1, 0) \<and>
   get_example (EOTrainingDataset_init
      [\<lparr>get_length = 3, getitem = (\<lambda>j. Inr (0::nat, j))\<rparr>,
       \<lparr>get_length = 5, getitem = (\<lambda>j. Inr (1, j))\<rparr>]) 7 = Inr (1, 4)"
proof -
  define ds :: "(nat \<times> int) AOIDataset list" where
    "ds = [\<lparr>get_length = 3, getitem = (\<lambda>j. Inr (0::nat, j))\<rparr>,
           \<lparr>get_length = 5, getitem = (\<lambda>j. Inr (1, j))\<rparr>]"
  note T = EOTrainingDataset_index_map [of ds]
  have o: "offset (map get_length ds) (Suc 0) = 3" "offset (map get_length ds) (Suc (Suc 0)) = 8"
    by (simp_all add: ds_def)
  have "EOTrainingDataset_len (EOTrainingDataset_init ds) = 8" using T by (simp add: ds_def)
  moreover have "EOTrainingDataset_getitem (EOTrainingDataset_init ds) (int 2) = Inr (0, 2)"
    using T [THEN conjunct2, THEN conjunct2, THEN spec, THEN spec, of 0 2] o by (simp add: ds_def)
  moreover have "EOTrainingDataset_getitem (EOTrainingDataset_init ds) (int 3) = Inr (1, 0)"
    using T [THEN conjunct2, THEN conjunct2, THEN spec, THEN spec, of 1 3] o by (simp add: ds_def)
  moreover have "get_example (EOTrainingDataset_init ds) (int 7) = Inr (1, 4)"
    using T [THEN conjunct2, THEN conjunct2, THEN spec, THEN spec, of 1 7] o by (simp add: ds_def)
  ultimately show ?thesis unfolding ds_def by simp
qed


lemma np_getitem_wrap:
  "- int (length arr) \<le> j \<Longrightarrow> j < 0 \<Longrightarrow> np_getitem arr j = np_getitem arr (int (length arr) + j)"
  by (simp add: np_getitem_def)

lemma np_getitem_nth:
  "i < length arr \<Longrightarrow> np_getitem arr (int i) = Inr (arr ! i)"
  by (simp add: np_getitem_def)

lemma np_getitem_raises:
  "(\<exists>e. np_getitem arr j = Inl e) = (int (length arr) \<le> j \<or> j < - int (length arr))"
  by (auto simp: np_getitem_def Let_def split: if_splits)

lemma np_getitem_out_of_range:
  "int (length arr) \<le> j \<or> j < - int (length arr) \<Longrightarrow>
   np_getitem arr j = Inl (if int64 j then IndexError else OverflowError)"
  by (auto simp: np_getitem_def Let_def split: if_splits)

text \<open>
  Claim C10.  With \<open>n\<close> the number of examples and \<open>- n \<le> j < 0\<close>, the index \<open>n + j\<close> lies
  in the interval of exactly one AOI dataset \<open>k\<close>; the table lookup at \<open>j\<close> gives the pair
  \<open>(k, n + j - offset[k])\<close>, and \<^verbatim>\<open>__getitem__\<close> and \<^verbatim>\<open>get_example\<close> at \<open>j\<close> return what
  AOI dataset \<open>k\<close> returns at local index \<open>n + j - offset[k]\<close>, which is what they return at
  \<open>n + j\<close>.  The table lookup raises exactly when \<open>j \<ge> n\<close> or \<open>j < - n\<close>, and then both
  accessors raise what it raises: IndexError for an index of 64 bits, OverflowError beyond.
\<close>

theorem EOTrainingDataset_negative_index:
  fixes ds_l :: "'ex AOIDataset list"
  defines "cs \<equiv> map get_length ds_l" and "self \<equiv> EOTrainingDataset_init ds_l"
  defines "n \<equiv> int (EOTrainingDataset_len self)"
  shows "(\<forall>j k. - n \<le> j \<and> j < 0 \<and>
         k < length ds_l \<and> offset cs k \<le> nat (n + j) \<and> nat (n + j) < offset cs (Suc k) \<longrightarrow>
       np_getitem (tds_ex_idx_2_aoi_ex_idx self) j =
         Inr (Some \<lparr>aoi_idx = k, aoi_ex_idx = nat (n + j) - offset cs k\<rparr>) \<and>
       EOTrainingDataset_getitem self j = getitem (ds_l ! k) (int (nat (n + j) - offset cs k)) \<and>
       get_example self j = getitem (ds_l ! k) (int (nat (n + j) - offset cs k))) \<and>
    (\<forall>j. - n \<le> j \<and> j < 0 \<longrightarrow>
       (\<exists>!k. k < length ds_l \<and> offset cs k \<le> nat (n + j) \<and> nat (n + j) < offset cs (Suc k)) \<and>
       EOTrainingDataset_getitem self j = EOTrainingDataset_getitem self (n + j) \<and>
       get_example self j = get_example self (n + j)) \<and>
    (\<forall>j. (\<exists>e. np_getitem (tds_ex_idx_2_aoi_ex_idx self) j = Inl e) = (n \<le> j \<or> j < - n)) \<and>
    (\<forall>j. n \<le> j \<or> j < - n \<longrightarrow>
       EOTrainingDataset_getitem self j = Inl (if int64 j then IndexError else OverflowError) \<and>
       get_example self j = Inl (if int64 j then IndexError else OverflowError))"
proof -
  have n: "n = int (length (tds_ex_idx_2_aoi_ex_idx self))" "n = int (sum_list cs)"
    by (simp_all add: n_def self_def init_len cs_def)
  have wrap_tbl: "np_getitem (tds_ex_idx_2_aoi_ex_idx self) j =
      np_getitem (tds_ex_idx_2_aoi_ex_idx self) (n + j)"
    if "- n \<le> j" "j < 0" for j
    using that np_getitem_wrap [of "tds_ex_idx_2_aoi_ex_idx self" j] by (simp add: n(1))
  have wrap: "EOTrainingDataset_getitem self j = EOTrainingDataset_getitem self (n + j)"
    if "- n \<le> j" "j < 0" for j
    using wrap_tbl [OF that] by (simp add: EOTrainingDataset_getitem_def)
  have at: "np_getitem (tds_ex_idx_2_aoi_ex_idx self) j =
         Inr (Some \<lparr>aoi_idx = k, aoi_ex_idx = nat (n + j) - offset cs k\<rparr>) \<and>
       EOTrainingDataset_getitem self j = getitem (ds_l ! k) (int (nat (n + j) - offset cs k))"
    if j: "- n \<le> j" "j < 0" and k: "k < length ds_l" "offset cs k \<le> nat (n + j)"
      "nat (n + j) < offset cs (Suc k)" for j k
  proof -
    have i: "int (nat (n + j)) = n + j" using j by simp
    have R: "nat (n + j) < length (tds_ex_idx_2_aoi_ex_idx self)"
      "tds_ex_idx_2_aoi_ex_idx self ! nat (n + j) =
         Some \<lparr>aoi_idx = k, aoi_ex_idx = nat (n + j) - offset cs k\<rparr>"
      using init_resolve [of k ds_l "nat (n + j)"] k unfolding cs_def self_def by blast+
    have "np_getitem (tds_ex_idx_2_aoi_ex_idx self) (int (nat (n + j))) =
         Inr (tds_ex_idx_2_aoi_ex_idx self ! nat (n + j))"
      by (rule np_getitem_nth [OF R(1)])
    then have "np_getitem (tds_ex_idx_2_aoi_ex_idx self) (n + j) =
         Inr (Some \<lparr>aoi_idx = k, aoi_ex_idx = nat (n + j) - offset cs k\<rparr>)"
      using i R(2) by (simp del: offset.simps)
    then have 1: "np_getitem (tds_ex_idx_2_aoi_ex_idx self) j =
         Inr (Some \<lparr>aoi_idx = k, aoi_ex_idx = nat (n + j) - offset cs k\<rparr>)"
      using wrap_tbl [OF j] by simp
    have "EOTrainingDataset_getitem self (int (nat (n + j))) =
        getitem (ds_l ! k) (int (nat (n + j) - offset cs k))"
      using EOTrainingDataset_index_map_aux [of k ds_l "nat (n + j)"] k
      unfolding cs_def self_def by blast
    then have 2: "EOTrainingDataset_getitem self j =
        getitem (ds_l ! k) (int (nat (n + j) - offset cs k))"
      using wrap [OF j] i by simp
    show ?thesis using 1 2 by blast
  qed
  have uniq: "\<exists>!k. k < length ds_l \<and> offset cs k \<le> nat (n + j) \<and> nat (n + j) < offset cs (Suc k)"
    if j: "- n \<le> j" "j < 0" for j
  proof -
    have "nat (n + j) < sum_list cs" using j n(2) by simp
    then obtain k where k: "k < length ds_l" "offset cs k \<le> nat (n + j)"
      "nat (n + j) < offset cs (Suc k)"
      using init_total [of "nat (n + j)" ds_l] unfolding cs_def by blast
    show ?thesis
    proof (rule ex1I [of _ k])
      show "k < length ds_l \<and> offset cs k \<le> nat (n + j) \<and> nat (n + j) < offset cs (Suc k)"
        using k by blast
    next
      fix k'
      assume "k' < length ds_l \<and> offset cs k' \<le> nat (n + j) \<and> nat (n + j) < offset cs (Suc k')"
      then show "k' = k" using offset_unique [of cs k' "nat (n + j)" k] k by blast
    qed
  qed
  have oor: "(\<exists>e. np_getitem (tds_ex_idx_2_aoi_ex_idx self) j = Inl e) = (n \<le> j \<or> j < - n)" for j
    by (simp add: np_getitem_raises n(1))
  have raise: "EOTrainingDataset_getitem self j = Inl (if int64 j then IndexError else OverflowError)"
    if "n \<le> j \<or> j < - n" for j
    using np_getitem_out_of_range [of "tds_ex_idx_2_aoi_ex_idx self" j] that
    by (simp add: EOTrainingDataset_getitem_def n(1))
  show ?thesis
    unfolding get_example_def
    using wrap at uniq oor raise by blast
qed

text \<open>
  On the dataset of lengths 3 and 5: index \<open>-1\<close> is the last example, which is the fifth
  of the second AOI dataset, \<open>-8\<close> is the first of the first, \<open>-5\<close> the first of the second;
  \<open>8\<close> and \<open>-9\<close> are out of range, and \<open>2\<^sup>6\<^sup>3\<close> is beyond the range of an index.
\<close>

theorem EOTrainingDataset_negative_index_witness:
  "EOTrainingDataset_getitem (EOTrainingDataset_init
      [\<lparr>get_length = 3, getitem = (\<lambda>j. Inr (0::nat, j))\<rparr>,
       \<lparr>get_length = 5, getitem = (\<lambda>j. Inr (1, j))\<rparr>]) (- 1) = Inr (1, 4) \<and>
   get_example (EOTrainingDataset_init
      [\<lparr>get_length = 3, getitem = (\<lambda>j. Inr (0::nat, j))\<rparr>,
       \<lparr>get_length = 5, getitem = (\<lambda>j. Inr (1, j))\<rparr>]) (- 8) = Inr (0, 0) \<and>
   get_example (EOTrainingDataset_init
      [\<lparr>get_length = 3, getitem = (\<lambda>j. Inr (0::nat, j))\<rparr>,
       \<lparr>get_length = 5, getitem = (\<lambda>j. Inr (1, j))\<rparr>]) (- 5) = Inr (1, 0) \<and>
   EOTrainingDataset_getitem (EOTrainingDataset_init
      [\<lparr>get_length = 3, getitem = (\<lambda>j. Inr (0::nat, j))\<rparr>,
       \<lparr>get_length = 5, getitem = (\<lambda>j. Inr (1, j))\<rparr>]) 8 = Inl IndexError \<and>
   get_example (EOTrainingDataset_init
      [\<lparr>get_length = 3, getitem = (\<lambda>j. Inr (0::nat, j))\<rparr>,
       \<lparr>get_length = 5, getitem = (\<lambda>j. Inr (1, j))\<rparr>]) (- 9) = Inl IndexError \<and>
   EOTrainingDataset_getitem (EOTrainingDataset_init
      [\<lparr>get_length = 3, getitem = (\<lambda>j. Inr (0::nat, j))\<rparr>,
       \<lparr>get_length = 5, getitem = (\<lambda>j. Inr (1, j))\<rparr>]) (2 ^ 63) = Inl OverflowError"
proof -
  define ds :: "(nat \<times> int) AOIDataset list" where
    "ds = [\<lparr>get_length = 3, getitem = (\<lambda>j. Inr (0::nat, j))\<rparr>,
           \<lparr>get_length = 5, getitem = (\<lambda>j. Inr (1, j))\<rparr>]"
  define self where "self = EOTrainingDataset_init ds"
  have n: "int (EOTrainingDataset_len self) = 8" by (simp add: self_def init_len ds_def)
  note T = EOTrainingDataset_negative_index [of ds, folded self_def, unfolded n]
  have o: "offset (map get_length ds) 0 = 0" "offset (map get_length ds) (Suc 0) = 3"
    "offset (map get_length ds) (Suc (Suc 0)) = 8" "length ds = 2"
    by (simp_all add: ds_def)
  have a: "EOTrainingDataset_getitem self (- 1) = Inr (1, 4)"
    using T [THEN conjunct1, THEN spec, THEN spec, of "- 1" 1] o by (simp add: ds_def)
  have b: "get_example self (- 8) = Inr (0, 0)"
    using T [THEN conjunct1, THEN spec, THEN spec, of "- 8" 0] o by (simp add: ds_def)
  have c: "get_example self (- 5) = Inr (1, 0)"
    using T [THEN conjunct1, THEN spec, THEN spec, of "- 5" 1] o by (simp add: ds_def)
  have d: "EOTrainingDataset_getitem self 8 = Inl IndexError"
    using T [THEN conjunct2, THEN conjunct2, THEN conjunct2, THEN spec, of 8]
    by (simp add: int64_def)
  have e: "get_example self (- 9) = Inl IndexError"
    using T [THEN conjunct2, THEN conjunct2, THEN conjunct2, THEN spec, of "- 9"]
    by (simp add: int64_def)
  have f: "EOTrainingDataset_getitem self (2 ^ 63) = Inl OverflowError"
    using T [THEN conjunct2, THEN conjunct2, THEN conjunct2, THEN spec, of "2 ^ 63"]
    by (simp add: int64_def)
  show ?thesis using a b c d e f unfolding self_def ds_def by simp
qed

section \<open>Properties of the pilot AOI datasets\<close>

lemma int_truediv_nonneg:
  "0 \<le> a \<Longrightarrow> a < 2 ^ 53 \<Longrightarrow> 0 < b \<Longrightarrow> b < 2 ^ 53 \<Longrightarrow> int_truediv a b = Inr (a div b)"
  by (simp add: int_truediv_def sgn_if)

lemma int_div_less:
  assumes "0 < (p::int)" and "i < n * p"
  shows "i div p < n"
proof (rule ccontr)
  assume "\<not> i div p < n"
  then have "n * p \<le> i div p * p" using assms(1) by (simp add: mult_right_mono)
  also have "\<dots> = i - i mod p" by (simp add: minus_mod_eq_div_mult)
  also have "\<dots> \<le> i" using assms(1) by simp
  finally show False using assms(2) by simp
qed

text \<open>
  Claim C2.  For an extent of 356 by 356 pixels, window size 256 and stride 26,
  \<^verbatim>\<open>AOIDatasetCAP\<close> (the exclusive policy, no time axis) has 3 windows along each axis and
  9 examples, which is the specification's total for a time length of 0, as claimed.  \<^verbatim>\<open>AOIDatasetSpaceNet\<close>, whose \<^verbatim>\<open>__len__\<close> holds the inclusive
  count, cannot be constructed: \<^verbatim>\<open>__init__\<close> raises on every input, and AttributeError
  whenever the two files open, so no run returns the count of 16 per time step.
\<close>

theorem AOIDatasetSpaceNet_init_raises:
  "cap_along_x \<lparr>cap_shape = [b, 356, 356], cap_window_size = 256, cap_stride = 26\<rparr> = Inr 3 \<and>
   cap_along_y \<lparr>cap_shape = [b, 356, 356], cap_window_size = 256, cap_stride = 26\<rparr> = Inr 3 \<and>
   AOIDatasetCAP_len \<lparr>cap_shape = [b, 356, 356], cap_window_size = 256, cap_stride = 26\<rparr> = Inr 9 \<and>
   spec_total 9 0 = 9 \<and>
   AOIDatasetSpaceNet_init (Inr [T, b, 356, 356]) (Inr [T, 356, 356]) (256, 26)
     = Inl AttributeError \<and>
   AOIDatasetSpaceNet_init (Inr feature_data) (Inr reference_data) metadata = Inl AttributeError \<and>
   (\<exists>e. AOIDatasetSpaceNet_init images_masked building_masks metadata = Inl e)"
proof -
  have c: "cap_along_x \<lparr>cap_shape = [b, 356, 356], cap_window_size = 256, cap_stride = 26\<rparr> = Inr 3"
    "cap_along_y \<lparr>cap_shape = [b, 356, 356], cap_window_size = 256, cap_stride = 26\<rparr> = Inr 3"
    by (simp_all add: cap_along_x_def cap_along_y_def tuple_getitem_def windows_exclusive_def
        int_truediv_def)
  have i: "AOIDatasetSpaceNet_init (Inr fd) (Inr rd) md = Inl AttributeError" for fd rd md
    by (simp add: AOIDatasetSpaceNet_init_def sn_new_def attr_def)
  have "\<exists>e. AOIDatasetSpaceNet_init images_masked building_masks metadata = Inl e"
  proof (cases images_masked)
    case (Inl e)
    then show ?thesis by (simp add: AOIDatasetSpaceNet_init_def)
  next
    case fd: (Inr fd)
    show ?thesis
    proof (cases building_masks)
      case (Inl e)
      then show ?thesis using fd by (simp add: AOIDatasetSpaceNet_init_def)
    next
      case (Inr rd)
      then show ?thesis using fd i by simp
    qed
  qed
  then show ?thesis using c i by (simp add: AOIDatasetCAP_len_def spec_total_def)
qed

text \<open>
  The body of \<^verbatim>\<open>AOIDatasetSpaceNet.__len__\<close> on an object that has been given, by hand, the
  attributes the method reads (which no run of \<^verbatim>\<open>__init__\<close> provides): 4 windows along
  each axis of 356 pixels, and 16 examples for each of the \<open>T\<close> dates.
\<close>

lemma AOIDatasetSpaceNet_len_given_attributes:
  assumes "sn_feature_data self = Some [Suc d, b, 356, 356]" and "sn_timesteps self = Some T"
    and "sn_metadata self = Some (256, 26)"
  shows "sn_x1_ceiling self [b, 356, 356] = Inr 4" and "sn_y1_ceiling self [b, 356, 356] = Inr 4"
    and "AOIDatasetSpaceNet_len self = Inr (int T * 16)"
proof -
  show x: "sn_x1_ceiling self [b, 356, 356] = Inr 4"
    by (simp add: sn_x1_ceiling_def tuple_getitem_def windows_inclusive_def int_truediv_def
        attr_def assms)
  show y: "sn_y1_ceiling self [b, 356, 356] = Inr 4"
    by (simp add: sn_y1_ceiling_def tuple_getitem_def windows_inclusive_def int_truediv_def
        attr_def assms)
  show "AOIDatasetSpaceNet_len self = Inr (int T * 16)"
    by (simp add: AOIDatasetSpaceNet_len_def sn_sample_image_shape_def attr_def assms x y)
qed

text \<open>
  Claim C3 at a raster whose two axes hold different numbers of windows.  The shape
  \<open>(4, 308, 334)\<close> with window size 256 and stride 26 gives \<open>along_x = 2\<close>, \<open>along_y = 3\<close>
  and 6 examples.  \<^verbatim>\<open>AOIDatasetCAP.__getitem__\<close> takes the column from \<open>index % along_x\<close>
  but the row from \<open>index / along_y\<close>: index 2 gets the window of index 0, where the
  specification's formula (row \<open>= floor(2 / 2) = 1\<close>) gives the window one stride down.
  Taking 3, the count of the other axis, for the formula's \<open>axisWindowsX\<close> does not give
  the code's window either.
\<close>

theorem cap_row_uses_along_y:
  "cap_along_x \<lparr>cap_shape = [4, 308, 334], cap_window_size = 256, cap_stride = 26\<rparr> = Inr 2 \<and>
   cap_along_y \<lparr>cap_shape = [4, 308, 334], cap_window_size = 256, cap_stride = 26\<rparr> = Inr 3 \<and>
   AOIDatasetCAP_len \<lparr>cap_shape = [4, 308, 334], cap_window_size = 256, cap_stride = 26\<rparr> = Inr 6 \<and>
   AOIDatasetCAP_getitem \<lparr>cap_shape = [4, 308, 334], cap_window_size = 256, cap_stride = 26\<rparr> 2
     = Inr \<lparr>x1 = 0, y1 = 0, x2 = 256, y2 = 256\<rparr> \<and>
   AOIDatasetCAP_getitem \<lparr>cap_shape = [4, 308, 334], cap_window_size = 256, cap_stride = 26\<rparr> 0
     = Inr \<lparr>x1 = 0, y1 = 0, x2 = 256, y2 = 256\<rparr> \<and>
   spec_window 2 6 256 26 2 = (0, \<lparr>x1 = 0, y1 = 26, x2 = 256, y2 = 282\<rparr>) \<and>
   spec_window 3 6 256 26 2 = (0, \<lparr>x1 = 52, y1 = 0, x2 = 308, y2 = 256\<rparr>)"
  by (simp add: cap_along_x_def cap_along_y_def tuple_getitem_def windows_exclusive_def
      int_truediv_def AOIDatasetCAP_len_def AOIDatasetCAP_getitem_def py_mod_def spec_window_def)

text \<open>
  The body of \<^verbatim>\<open>AOIDatasetSpaceNet.__getitem__\<close>, again on an object given by hand the
  attributes the method reads, follows the formula of claim C3: with positive window counts
  \<open>ax\<close> and \<open>ay\<close> along the two axes, fewer than \<open>2\<^sup>5\<^sup>3\<close> examples and every index
  \<open>0 \<le> i < T * ax * ay\<close>, the time step and the window are the specification's.
\<close>

lemma AOIDatasetSpaceNet_getitem_spec:
  assumes fd: "sn_feature_data self = Some (d # b # ex # ey # rest)"
    and md: "sn_metadata self = Some (ws, st)"
    and ts: "sn_timesteps self = Some T"
    and rd: "sn_reference_data self = Some (dr # rx # ry # rrest)"
    and dt: "sn_data self = Some ()"
    and x: "sn_x1_ceiling self (b # ex # ey # rest) = Inr ax" "0 < ax"
    and y: "sn_y1_ceiling self (b # ex # ey # rest) = Inr ay" "0 < ay"
    and d: "T \<le> d" "T \<le> dr"
    and i: "0 \<le> i" "i < int T * (ax * ay)"
    and small: "int T * (ax * ay) < 2 ^ 53"
  shows "AOIDatasetSpaceNet_len self = Inr (int T * (ax * ay)) \<and>
    AOIDatasetSpaceNet_getitem self i = Inr (spec_window ax (ax * ay) ws st i)"
proof -
  define per where "per = ax * ay"
  have per: "0 < per" using x y by (simp add: per_def)
  have T: "0 < T" using i per unfolding per_def
    by (metis less_le_trans mult_zero_left neq0_conv of_nat_0 order.strict_implies_order not_less)
  have d0: "d \<noteq> 0" using d T by simp
  have smp: "sn_sample_image_shape self = Inr (b # ex # ey # rest)"
    using d0 by (simp add: sn_sample_image_shape_def fd attr_def)
  have len: "AOIDatasetSpaceNet_len self = Inr (int T * per)"
    by (simp add: AOIDatasetSpaceNet_len_def smp x y ts attr_def per_def)
  have plen: "py_len (AOIDatasetSpaceNet_len self) = Inr (int T * per)"
  proof -
    have "0 \<le> int T * per" using per by simp
    then show ?thesis by (simp add: py_len_def len)
  qed
  have "1 * per \<le> int T * per" using T per by (intro mult_right_mono) simp_all
  then have per53: "per < 2 ^ 53" using small by (simp add: per_def)
  have "ax * 1 \<le> ax * ay" using x y by (intro mult_left_mono) simp_all
  then have ax53: "ax < 2 ^ 53" using per53 by (simp add: per_def)
  have i53: "i < 2 ^ 53" using i small by simp
  define t where "t = i div per"
  have t: "0 \<le> t" "t < int T"
    using i per int_div_less [of per i "int T"] unfolding t_def per_def
    by (simp_all add: pos_imp_zdiv_nonneg_iff)
  have tdiv: "int_truediv i per = Inr t"
    using i per per53 i53 by (simp add: int_truediv_nonneg t_def)
  define res where "res = i - t * per"
  have res: "res = i mod per" unfolding res_def t_def by (simp add: minus_div_mult_eq_mod)
  then have res0: "0 \<le> res" using per by simp
  have "res \<le> i" using res i per by (simp add: zmod_le_nonneg_dividend)
  then have res53: "res < 2 ^ 53" using i53 by simp
  have rdiv: "int_truediv res ax = Inr (res div ax)"
    using res0 res53 x ax53 by (simp add: int_truediv_nonneg)
  have rmod: "py_mod res ax = Inr (res mod ax)" using x by (simp add: py_mod_def)
  have rd1: "tuple_getitem (replicate d ()) t = Inr ()"
    using t d by (simp add: tuple_getitem_def)
  have rd2: "tuple_getitem (replicate T ()) t = Inr ()"
    using t by (simp add: tuple_getitem_def)
  have rd3: "tuple_getitem (replicate dr ()) t = Inr ()"
    using t d by (simp add: tuple_getitem_def)
  have hd: "tuple_getitem (d # b # ex # ey # rest) 0 = Inr d"
    by (simp add: tuple_getitem_def)
  note F = plen tdiv rdiv rmod rd1 rd2 rd3
  have "AOIDatasetSpaceNet_getitem self i = Inr (spec_window ax (ax * ay) ws st i)"
    using i
    by (simp add: AOIDatasetSpaceNet_getitem_def smp x y fd md ts rd dt attr_def hd
        F [unfolded res_def t_def per_def] spec_window_def Let_def)
  then show ?thesis using len by (simp add: per_def)
qed

section \<open>Properties of the catalog\<close>

lemma bindE_eq_Inr: "(bindE m f = Inr y) = (\<exists>x. m = Inr x \<and> f x = Inr y)"
  by (cases m) simp_all

lemma metadata_req_info_finite:
  "finite (required_metadata_set (metadata_req_info d))"
  "finite (recommended_metadata_set (metadata_req_info d))"
  "finite (optional_metadata_set (metadata_req_info d))"
  by (simp_all add: metadata_req_info_def)

lemma ext_to_metadata_req_info_d_finite:
  assumes "ext_to_metadata_req_info_d cfg name = Some req"
  shows "finite (required_metadata_set req) \<and> finite (recommended_metadata_set req) \<and>
         finite (optional_metadata_set req)"
proof -
  from assms have "(name, req) \<in> set (map (\<lambda>kv. (fst kv, metadata_req_info (snd kv))) cfg)"
    unfolding ext_to_metadata_req_info_d_def by (rule map_of_SomeD)
  then obtain d where "req = metadata_req_info d" by auto
  then show ?thesis by (simp add: metadata_req_info_finite)
qed

lemma spec_fraction_one:
  assumes "finite tier"
  shows "(spec_fraction present tier = 1) = (card (present \<inter> tier) = card tier)"
proof (cases "card tier = 0")
  case True
  then have "tier = {}" using assms by simp
  then show ?thesis by (simp add: spec_fraction_def)
next
  case False
  then show ?thesis by (auto simp: spec_fraction_def)
qed

subsection \<open>Compliance level\<close>

text \<open>
  Claim C5.  \<^verbatim>\<open>compute_compliance_level\<close> raises AssertionError on a catalog whose
  \<^verbatim>\<open>valid_tds\<close> flag is not set.  On a validated catalog with a root document, and the
  requirement table the module builds from its configuration, it returns 1, 2 or 3.
  The levels are cumulative: the result reaches level 2 exactly when the recommended
  fraction is 1, and it is 3 exactly when the recommended and the optional fraction are
  both 1; hence it stays at 2 exactly when the recommended fraction is 1 and the optional
  one is not.  The fractions are the specification's, with 1 for an empty tier, which is
  how the code's comparison of the two lengths treats an empty tier.
\<close>

theorem compute_compliance_level_spec:
  "(\<not> valid_tds self \<longrightarrow>
      compute_compliance_level (ext_to_metadata_req_info_d cfg) self = Inl AssertionError) \<and>
   (valid_tds self \<and> tds_ctl_root_info self = Some info \<and> tds_root_metadata_d info = JObj kvs \<and>
    ext_to_metadata_req_info_d cfg ''aireo_tds_core'' = Some req \<longrightarrow>
    (\<exists>l. compute_compliance_level (ext_to_metadata_req_info_d cfg) self = Inr l \<and>
       (l = 1 \<or> l = 2 \<or> l = 3) \<and>
       (2 \<le> l) = (spec_fraction (set (map fst kvs)) (recommended_metadata_set req) = 1) \<and>
       (l = 3) = (spec_fraction (set (map fst kvs)) (recommended_metadata_set req) = 1 \<and>
                  spec_fraction (set (map fst kvs)) (optional_metadata_set req) = 1) \<and>
       (l = 2) = (spec_fraction (set (map fst kvs)) (recommended_metadata_set req) = 1 \<and>
                  spec_fraction (set (map fst kvs)) (optional_metadata_set req) \<noteq> 1)))"
proof (intro conjI impI)
  assume "\<not> valid_tds self"
  then show "compute_compliance_level (ext_to_metadata_req_info_d cfg) self = Inl AssertionError"
    by (simp add: compute_compliance_level_def)
next
  assume a: "valid_tds self \<and> tds_ctl_root_info self = Some info \<and> tds_root_metadata_d info = JObj kvs \<and>
    ext_to_metadata_req_info_d cfg ''aireo_tds_core'' = Some req"
  then have v: "valid_tds self" and i: "tds_ctl_root_info self = Some info"
    and d: "tds_root_metadata_d info = JObj kvs"
    and r: "ext_to_metadata_req_info_d cfg ''aireo_tds_core'' = Some req"
    by simp_all
  from ext_to_metadata_req_info_d_finite [OF r]
  have fin: "finite (recommended_metadata_set req)" "finite (optional_metadata_set req)"
    by simp_all
  note one = spec_fraction_one [OF fin(1)] spec_fraction_one [OF fin(2)]
  show "\<exists>l. compute_compliance_level (ext_to_metadata_req_info_d cfg) self = Inr l \<and>
       (l = 1 \<or> l = 2 \<or> l = 3) \<and>
       (2 \<le> l) = (spec_fraction (set (map fst kvs)) (recommended_metadata_set req) = 1) \<and>
       (l = 3) = (spec_fraction (set (map fst kvs)) (recommended_metadata_set req) = 1 \<and>
                  spec_fraction (set (map fst kvs)) (optional_metadata_set req) = 1) \<and>
       (l = 2) = (spec_fraction (set (map fst kvs)) (recommended_metadata_set req) = 1 \<and>
                  spec_fraction (set (map fst kvs)) (optional_metadata_set req) \<noteq> 1)"
    unfolding compute_compliance_level_def one
    by (simp add: v i d r Let_def)
qed

lemma cfg_abcd_table:
  "ext_to_metadata_req_info_d cfg_abcd ''aireo_tds_core'' =
     Some \<lparr>required_metadata_set = {''a'', ''b''}, recommended_metadata_set = {''c''},
           optional_metadata_set = {''d''}\<rparr>"
  by (simp add: ext_to_metadata_req_info_d_def cfg_abcd_def metadata_req_info_def
      del: set_filter)

text \<open>
  The specification's example: the keys \<open>a\<close> and \<open>c\<close> give level 2; the catalog fresh from
  \<^verbatim>\<open>__init__\<close> is not validated.
\<close>

theorem compute_compliance_level_witness:
  "compute_compliance_level (ext_to_metadata_req_info_d cfg_abcd) catalog_ac = Inr 2 \<and>
   compute_compliance_level (ext_to_metadata_req_info_d cfg_abcd) DatasetSTACCatalog_init
     = Inl AssertionError"
proof -
  have f: "spec_fraction {''a'', ''c''} {''c''} = 1" "spec_fraction {''a'', ''c''} {''d''} \<noteq> 1"
    by (simp_all add: spec_fraction_def)
  have "compute_compliance_level (ext_to_metadata_req_info_d cfg_abcd) catalog_ac = Inr 2"
    using compute_compliance_level_spec [of catalog_ac cfg_abcd
        "\<lparr>root_fn_path = ''/tds/catalog.json'',
         tds_root_metadata_d = JObj [(''a'', JStr ''x''), (''c'', JStr ''y'')],
         g_all_field_metadata = None\<rparr>" "[(''a'', JStr ''x''), (''c'', JStr ''y'')]"
        "\<lparr>required_metadata_set = {''a'', ''b''}, recommended_metadata_set = {''c''},
           optional_metadata_set = {''d''}\<rparr>"] f
    by (auto simp: cfg_abcd_table catalog_ac_def DatasetSTACCatalog_init_def)
  moreover have "compute_compliance_level (ext_to_metadata_req_info_d cfg_abcd) DatasetSTACCatalog_init
     = Inl AssertionError"
    using compute_compliance_level_spec [of DatasetSTACCatalog_init cfg_abcd]
    by (simp add: DatasetSTACCatalog_init_def)
  ultimately show ?thesis by simp
qed

subsection \<open>Completeness report\<close>

lemma cfg_abc_table:
  "ext_to_metadata_req_info_d cfg_abc ''aireo_tds_core'' =
     Some \<lparr>required_metadata_set = {''a'', ''b''}, recommended_metadata_set = {''c''},
           optional_metadata_set = {}\<rparr>"
  by (simp add: ext_to_metadata_req_info_d_def cfg_abc_def metadata_req_info_def
      del: set_filter)

lemma true_div_examples:
  "true_div 1 2 = Inr (1 / 2)" "true_div 1 1 = Inr 1" "true_div 0 1 = Inr 0"
  by code_simp+

lemma len_truediv_examples:
  "len_truediv (Suc 0) (Suc (Suc 0)) = Inr (1 / 2)" "len_truediv (Suc 0) (Suc 0) = Inr 1"
  "len_truediv 0 (Suc 0) = Inr 0" "len_truediv k 0 = Inl ZeroDivisionError"
  by (simp_all add: len_truediv_def true_div_examples) (simp add: true_div_def)

text \<open>
  Whenever \<^verbatim>\<open>report_metadata_completeness\<close> returns its dictionary, none of the three
  tiers of the table is empty: on an empty tier the division raises.
\<close>

lemma report_metadata_completeness_Inr:
  assumes run: "report_metadata_completeness (ext_to_metadata_req_info_d cfg) self = Inr c"
    and r: "ext_to_metadata_req_info_d cfg ''aireo_tds_core'' = Some req"
  shows "required_metadata_set req \<noteq> {} \<and> recommended_metadata_set req \<noteq> {} \<and>
         optional_metadata_set req \<noteq> {}"
proof -
  have z: "len_truediv k m = Inr x \<Longrightarrow> m \<noteq> 0" for k m x
    by (auto simp: len_truediv_def true_div_def split: if_splits)
  from run r obtain ks where
    "\<exists>x. len_truediv (card (set ks \<inter> required_metadata_set req))
       (card (required_metadata_set req)) = Inr x"
    "\<exists>x. len_truediv (card (set ks \<inter> recommended_metadata_set req))
       (card (recommended_metadata_set req)) = Inr x"
    "\<exists>x. len_truediv (card (set ks \<inter> optional_metadata_set req))
       (card (optional_metadata_set req)) = Inr x"
    unfolding report_metadata_completeness_def
    by (auto simp: bindE_eq_Inr split: if_splits option.splits)
  then have "card (required_metadata_set req) \<noteq> 0" "card (recommended_metadata_set req) \<noteq> 0"
    "card (optional_metadata_set req) \<noteq> 0"
    using z by blast+
  then show ?thesis by auto
qed

text \<open>
  Claim C4.  On the specification's example, with the keys \<open>a\<close> and \<open>c\<close> in the root
  document, \<^verbatim>\<open>report_metadata_completeness\<close> returns 0.5, 1.0 and 0.0.  On the same
  catalog and the table without an optional name it raises ZeroDivisionError, where the
  specification's fraction of the empty tier is 1; \<^verbatim>\<open>compute_compliance_level\<close>, on the
  same catalog and table, counts the empty tier as complete and returns level 3.
\<close>

theorem report_metadata_completeness_empty_tier:
  "report_metadata_completeness (ext_to_metadata_req_info_d cfg_abc) catalog_ac
     = Inl ZeroDivisionError \<and>
   spec_fraction {''a'', ''c''} {} = 1 \<and>
   compute_compliance_level (ext_to_metadata_req_info_d cfg_abc) catalog_ac = Inr 3 \<and>
   report_metadata_completeness (ext_to_metadata_req_info_d cfg_abcd) catalog_ac =
     Inr \<lparr>required_metadata = 1 / 2, recommended_metadata = 1, optional_metadata = 0\<rparr>"
proof -
  have 1: "report_metadata_completeness (ext_to_metadata_req_info_d cfg_abc) catalog_ac
     = Inl ZeroDivisionError"
    by (simp add: report_metadata_completeness_def cfg_abc_table catalog_ac_def
        DatasetSTACCatalog_init_def len_truediv_examples)
  have 2: "compute_compliance_level (ext_to_metadata_req_info_d cfg_abc) catalog_ac = Inr 3"
    by (simp add: compute_compliance_level_def cfg_abc_table catalog_ac_def
        DatasetSTACCatalog_init_def)
  have 3: "report_metadata_completeness (ext_to_metadata_req_info_d cfg_abcd) catalog_ac =
     Inr \<lparr>required_metadata = 1 / 2, recommended_metadata = 1, optional_metadata = 0\<rparr>"
    by (simp add: report_metadata_completeness_def cfg_abcd_table catalog_ac_def
        DatasetSTACCatalog_init_def len_truediv_examples)
  show ?thesis using 1 2 3 by (simp add: spec_fraction_def)
qed

subsection \<open>Writing into an existing directory\<close>

lemma mkdir_parents_exists:
  "path_exists fs p \<Longrightarrow> mkdir_parents p fs = Inl FileExistsError"
  by (simp add: mkdir_parents_def)

text \<open>
  Claim C9.  When the parent directory of the catalog path exists already (as a
  directory or as a file), \<^verbatim>\<open>write_TDS_STAC_Catalog\<close> raises, FileExistsError from
  \<^verbatim>\<open>mkdir\<close> or AssertionError before it on an unvalidated catalog, and leaves the file
  system as it was, whatever the rest of the method would write.
\<close>

theorem write_TDS_STAC_Catalog_existing_root:
  "path_exists fs (butlast catalog_fn_w_path) \<longrightarrow>
   write_TDS_STAC_Catalog rest self catalog_fn_w_path fs =
     (fs, Some (if valid_tds self then FileExistsError else AssertionError))"
  by (simp add: write_TDS_STAC_Catalog_def mkdir_parents_exists)

text \<open>
  Writing to \<^verbatim>\<open>/out/catalog.json\<close> when \<^verbatim>\<open>/out\<close> exists, and to \<^verbatim>\<open>catalog.json\<close> in the
  current directory: both raise and change nothing, though the rest of the method, as
  given here, would delete every file.
\<close>

theorem write_TDS_STAC_Catalog_existing_root_witness:
  "write_TDS_STAC_Catalog (\<lambda>c p fs. (fs\<lparr>files := Map.empty\<rparr>, None)) catalog_ac
      [''/'', ''out'', ''catalog.json''] fs_out = (fs_out, Some FileExistsError) \<and>
   write_TDS_STAC_Catalog (\<lambda>c p fs. (fs\<lparr>files := Map.empty\<rparr>, None)) catalog_ac
      [''catalog.json''] fs_out = (fs_out, Some FileExistsError) \<and>
   write_TDS_STAC_Catalog (\<lambda>c p fs. (fs\<lparr>files := Map.empty\<rparr>, None)) DatasetSTACCatalog_init
      [''/'', ''out'', ''catalog.json''] fs_out = (fs_out, Some AssertionError)"
proof -
  have e: "path_exists fs_out (butlast [''/'', ''out'', ''catalog.json''])"
    "path_exists fs_out (butlast [''catalog.json''])"
    by (simp_all add: path_exists_def fs_out_def)
  have v: "valid_tds catalog_ac" "\<not> valid_tds DatasetSTACCatalog_init"
    by (simp_all add: catalog_ac_def DatasetSTACCatalog_init_def)
  show ?thesis
    using write_TDS_STAC_Catalog_existing_root
            [of fs_out "[''/'', ''out'', ''catalog.json'']" _ catalog_ac]
          write_TDS_STAC_Catalog_existing_root
            [of fs_out "[''catalog.json'']" _ catalog_ac]
          write_TDS_STAC_Catalog_existing_root
            [of fs_out "[''/'', ''out'', ''catalog.json'']" _ DatasetSTACCatalog_init]
          e v
    by simp
qed

subsection \<open>Loops that may raise, and the relation grammar\<close>

lemma set_field_metadata_Inr:
  "(set_field_metadata ev a t n i = Inr b) = (\<exists>tg. store_target ev t n = Inr tg \<and> b = store tg i a)"
  by (auto simp: set_field_metadata_def bindE_eq_Inr)


lemma foldE_Inr_steps:
  "foldE f xs s = Inr s' \<Longrightarrow> x \<in> set xs \<Longrightarrow> \<exists>a b. f x a = Inr b"
proof (induction xs arbitrary: s)
  case Nil
  then show ?case by simp
next
  case (Cons y ys)
  then show ?case by (cases "f y s") (auto split: sum.splits)
qed

lemma foldE_invariant:
  assumes step: "\<And>x a b. x \<in> set xs \<Longrightarrow> f x a = Inr b \<Longrightarrow> I a \<Longrightarrow> I b"
    and init: "I s" and run: "foldE f xs s = Inr s'"
  shows "I s'"
  using assms
proof (induction xs arbitrary: s)
  case Nil
  then show ?case by simp
next
  case (Cons y ys)
  from Cons.prems(3) obtain b where b: "f y s = Inr b" "foldE f ys b = Inr s'"
    by (cases "f y s") simp_all
  have Ib: "I b" using Cons.prems(1) [of y s b] b(1) Cons.prems(2) by simp
  have st: "I b" if "x \<in> set ys" "f x a = Inr b" "I a" for x a b
    using Cons.prems(1) [of x a b] that by simp
  show ?case by (rule Cons.IH [OF st Ib b(2)])
qed

lemma mapE_Inr:
  "mapE f xs = Inr ys \<Longrightarrow> list_all2 (\<lambda>x y. f x = Inr y) xs ys"
proof (induction xs arbitrary: ys)
  case Nil
  then show ?case by simp
next
  case (Cons x xs)
  then show ?case by (auto split: sum.splits)
qed

lemma split_on_not_Nil: "split_on c s \<noteq> []"
  by (induction s) (auto split: list.splits)

lemma split_on_no_sep: "c \<notin> set s \<Longrightarrow> split_on c s = [s]"
  by (induction s) (auto split: list.splits)

lemma split_on_append: "c \<notin> set a \<Longrightarrow> split_on c (a @ c # b) = a # split_on c b"
  by (induction a) (auto split: list.splits)

lemma unpack_rel_grammar:
  assumes "CHR ''/'' \<notin> set t" and "CHR ''/'' \<notin> set name"
  shows "unpack_rel (JStr (''metadata/'' @ t @ ''/'' @ name)) = Inr (t, name)"
proof -
  have "split_on (CHR ''/'') (''metadata'' @ CHR ''/'' # (t @ CHR ''/'' # name))
      = ''metadata'' # split_on (CHR ''/'') (t @ CHR ''/'' # name)"
    by (rule split_on_append) simp
  also have "split_on (CHR ''/'') (t @ CHR ''/'' # name) = t # split_on (CHR ''/'') name"
    using assms(1) by (rule split_on_append)
  also have "split_on (CHR ''/'') name = [name]" using assms(2) by (rule split_on_no_sep)
  finally show ?thesis by simp
qed

lemma unpack_rel_ValueError:
  "length (split_on (CHR ''/'') rel) \<noteq> 3 \<Longrightarrow> unpack_rel (JStr rel) = Inl ValueError"
  by (auto split: list.splits)

lemma malformed_relationD:
  assumes "malformed_relation link"
  obtains rel where "subscript link ''rel'' = Inr (JStr rel)" "startswith rel ''metadata''"
    "unpack_rel (JStr rel) = Inl ValueError"
proof -
  from assms obtain rel where r: "subscript link ''rel'' = Inr (JStr rel)"
    "startswith rel ''metadata''" "length (split_on (CHR ''/'') rel) \<noteq> 3"
    unfolding malformed_relation_def by (auto split: sum.splits json.splits)
  from r(3) have "unpack_rel (JStr rel) = Inl ValueError" by (rule unpack_rel_ValueError)
  with r show ?thesis using that by blast
qed

lemma g_link_profile_malformed:
  assumes "malformed_relation link"
  shows "g_link_profile ev folder link = Inl ValueError"
proof -
  from assms obtain rel where "subscript link ''rel'' = Inr (JStr rel)"
    "startswith rel ''metadata''" "unpack_rel (JStr rel) = Inl ValueError"
    by (rule malformed_relationD)
  then show ?thesis by (simp add: g_link_profile_def del: unpack_rel.simps)
qed

lemma aoi_link_profile_malformed:
  assumes "malformed_relation link"
  shows "aoi_link_profile ev folder link = Inl ValueError"
proof -
  from assms obtain rel where "subscript link ''rel'' = Inr (JStr rel)"
    "startswith rel ''metadata''" "unpack_rel (JStr rel) = Inl ValueError"
    by (rule malformed_relationD)
  then show ?thesis by (simp add: aoi_link_profile_def del: unpack_rel.simps)
qed

lemma link_step_malformed:
  "malformed_relation link \<Longrightarrow> g_link_step ev folder link st = Inl ValueError"
  "malformed_relation link \<Longrightarrow> aoi_link_step ev folder link st = Inl ValueError"
  by (simp_all add: g_link_step_def aoi_link_step_def g_link_profile_malformed
      aoi_link_profile_malformed)

lemma parse_g_profile_info_links:
  assumes "parse_g_profile_info ev info = Inr g"
  shows "foldE (g_link_step ev (parent ev (absolute ev (root_fn_path info))))
           (doc_links (tds_root_metadata_d info))
           \<lparr>features = Map.empty, references = Map.empty\<rparr> = Inr g"
  using assms unfolding parse_g_profile_info_def doc_links_def
  by (auto simp: bindE_eq_Inr)

lemma parse_aoi_profile_info_links:
  assumes "parse_aoi_profile_info ev a info = Inr m"
  shows "foldE (aoi_link_step ev (parent ev (absolute ev (aoi_fn_path a))))
           (doc_links (aoi_collection_metadata_d a))
           \<lparr>features = Map.empty, references = Map.empty\<rparr> = Inr m"
  using assms unfolding parse_aoi_profile_info_def doc_links_def
  by (auto simp: bindE_eq_Inr)

lemma from_TDSCatalog_Inr:
  assumes "from_TDSCatalog ev p = Inr cat"
  shows "\<exists>d g l.
    read_json ev p = Inr d \<and>
    parse_g_profile_info ev
      \<lparr>root_fn_path = absolute ev p, tds_root_metadata_d = d, g_all_field_metadata = None\<rparr> = Inr g \<and>
    tds_ctl_root_info cat =
      Some \<lparr>root_fn_path = absolute ev p, tds_root_metadata_d = d, g_all_field_metadata = Some g\<rparr> \<and>
    valid_tds cat \<and>
    list_all2 (\<lambda>a a'. \<exists>m.
        parse_aoi_profile_info ev a
          \<lparr>root_fn_path = absolute ev p, tds_root_metadata_d = d, g_all_field_metadata = Some g\<rparr>
          = Inr m \<and>
        a' = a\<lparr>aoi_all_field_metadata := Some m\<rparr>) l (aoi_collection_info_l cat)"
proof -
  from assms obtain d g fsd o2 l l' where
    d: "read_json ev p = Inr d"
    and g: "parse_g_profile_info ev
      \<lparr>root_fn_path = absolute ev p, tds_root_metadata_d = d, g_all_field_metadata = None\<rparr> = Inr g"
    and o2: "add_field_schema
       (DatasetSTACCatalog_init\<lparr>tds_ctl_root_info :=
          Some \<lparr>root_fn_path = absolute ev p, tds_root_metadata_d = d, g_all_field_metadata = Some g\<rparr>,
          valid_tds_root := True\<rparr>) fsd = Inr o2"
    and l': "mapE (\<lambda>a. bindE (parse_aoi_profile_info ev a
          \<lparr>root_fn_path = absolute ev p, tds_root_metadata_d = d, g_all_field_metadata = Some g\<rparr>)
                        (\<lambda>m. Inr (a\<lparr>aoi_all_field_metadata := Some m\<rparr>))) l = Inr l'"
    and cat: "cat = o2\<lparr>aoi_collection_info_l := l', valid_tds := True\<rparr>"
    unfolding from_TDSCatalog_def parse_root_tds_ctl_info_def
    by (auto simp: bindE_eq_Inr Let_def)
  from o2 obtain fs where "o2 = (DatasetSTACCatalog_init\<lparr>tds_ctl_root_info :=
          Some \<lparr>root_fn_path = absolute ev p, tds_root_metadata_d = d, g_all_field_metadata = Some g\<rparr>,
          valid_tds_root := True\<rparr>)\<lparr>field_schema := Some fs, valid_field_schema := True\<rparr>"
    by (auto simp: add_field_schema_def bindE_eq_Inr)
  then have c: "tds_ctl_root_info cat =
      Some \<lparr>root_fn_path = absolute ev p, tds_root_metadata_d = d, g_all_field_metadata = Some g\<rparr>"
    "valid_tds cat" "aoi_collection_info_l cat = l'"
    using cat by simp_all
  have "list_all2 (\<lambda>a a'. \<exists>m.
        parse_aoi_profile_info ev a
          \<lparr>root_fn_path = absolute ev p, tds_root_metadata_d = d, g_all_field_metadata = Some g\<rparr>
          = Inr m \<and>
        a' = a\<lparr>aoi_all_field_metadata := Some m\<rparr>) l l'"
    using mapE_Inr [OF l'] by (rule list_all2_mono) (auto simp: bindE_eq_Inr)
  then show ?thesis using d g c by auto
qed

lemma foldE_no_malformed:
  assumes run: "foldE step links st = Inr m"
    and bad: "\<And>l a. malformed_relation l \<Longrightarrow> step l a = Inl ValueError"
  shows "list_all (\<lambda>l. \<not> malformed_relation l) links"
proof -
  have "\<not> malformed_relation l" if lm: "l \<in> set links" for l
  proof
    assume "malformed_relation l"
    then have "step l a = Inl ValueError" for a by (rule bad)
    moreover obtain a b where "step l a = Inr b"
      using foldE_Inr_steps [OF run lm] by blast
    ultimately show False by simp
  qed
  then show ?thesis by (simp add: list_all_iff)
qed

lemma parse_g_profile_info_no_malformed:
  assumes "parse_g_profile_info ev info = Inr g"
  shows "list_all (\<lambda>l. \<not> malformed_relation l) (doc_links (tds_root_metadata_d info))"
  using parse_g_profile_info_links [OF assms]
  by (rule foldE_no_malformed) (rule link_step_malformed(1))

lemma parse_aoi_profile_info_no_malformed:
  assumes "parse_aoi_profile_info ev a info = Inr m"
  shows "list_all (\<lambda>l. \<not> malformed_relation l) (doc_links (aoi_collection_metadata_d a))"
  using parse_aoi_profile_info_links [OF assms]
  by (rule foldE_no_malformed) (rule link_step_malformed(2))

lemma g_link_profile_Some:
  assumes rel: "subscript link ''rel'' = Inr (JStr rel)"
    and sw: "startswith rel ''metadata''"
    and u: "unpack_rel (JStr rel) = Inr (t, name)"
    and h: "hasattr_FieldSchema ev t"
    and href: "subscript link ''href'' = Inr (JStr h)"
    and rd: "read_json ev (if is_absolute ev h then h else joinpath ev folder h) = Inr prof"
  shows "g_link_profile ev folder link =
    Inr (Some (t, name,
      \<lparr>fn_path = (if is_absolute ev h then h else joinpath ev folder h), metadata_d = prof,
       data_asset_w_path = None, data_asset_info_d = None\<rparr>))"
  unfolding g_link_profile_def
  using rd by (simp add: rel sw u href resolve_href_def h del: unpack_rel.simps split: if_splits)

lemma aoi_link_profile_Some:
  assumes rel: "subscript link ''rel'' = Inr (JStr rel)"
    and sw: "startswith rel ''metadata''"
    and u: "unpack_rel (JStr rel) = Inr (t, name)"
    and h: "hasattr_FieldSchema ev t"
    and href: "subscript link ''href'' = Inr (JStr h)"
    and rd: "read_json ev (if is_absolute ev h then h else joinpath ev folder h) = Inr prof"
    and pa: "parse_asset ev folder prof = Inr (asset_path, asset_info)"
  shows "aoi_link_profile ev folder link =
    Inr (Some (t, name,
      \<lparr>fn_path = (if is_absolute ev h then h else joinpath ev folder h), metadata_d = prof,
       data_asset_w_path = Some asset_path, data_asset_info_d = Some asset_info\<rparr>))"
  unfolding aoi_link_profile_def
  using rd pa by (simp add: rel sw u href resolve_href_def h del: unpack_rel.simps split: if_splits)

lemma link_profile_grammar:
  assumes rel: "subscript link ''rel'' = Inr (JStr (''metadata/'' @ t @ ''/'' @ name))"
    and t: "t = ''features'' \<or> t = ''references''" and name: "CHR ''/'' \<notin> set name"
    and href: "subscript link ''href'' = Inr (JStr h)"
    and rd: "read_json ev (if is_absolute ev h then h else joinpath ev folder h) = Inr prof"
  shows "g_link_profile ev folder link =
    Inr (Some (t, name,
      \<lparr>fn_path = (if is_absolute ev h then h else joinpath ev folder h), metadata_d = prof,
       data_asset_w_path = None, data_asset_info_d = None\<rparr>))"
    and "parse_asset ev folder prof = Inr (asset_path, asset_info) \<Longrightarrow>
      aoi_link_profile ev folder link =
        Inr (Some (t, name,
          \<lparr>fn_path = (if is_absolute ev h then h else joinpath ev folder h), metadata_d = prof,
           data_asset_w_path = Some asset_path, data_asset_info_d = Some asset_info\<rparr>))"
proof -
  have "CHR ''/'' \<notin> set t" using t by auto
  then have u: "unpack_rel (JStr (''metadata/'' @ t @ ''/'' @ name)) = Inr (t, name)"
    using name by (rule unpack_rel_grammar)
  have sw: "startswith (''metadata/'' @ t @ ''/'' @ name) ''metadata''"
    by (simp add: startswith_def)
  have h: "hasattr_FieldSchema ev t" using t by (auto simp: hasattr_FieldSchema_def)
  show "g_link_profile ev folder link =
    Inr (Some (t, name,
      \<lparr>fn_path = (if is_absolute ev h then h else joinpath ev folder h), metadata_d = prof,
       data_asset_w_path = None, data_asset_info_d = None\<rparr>))"
    by (rule g_link_profile_Some [OF rel sw u h href rd])
  show "aoi_link_profile ev folder link =
        Inr (Some (t, name,
          \<lparr>fn_path = (if is_absolute ev h then h else joinpath ev folder h), metadata_d = prof,
           data_asset_w_path = Some asset_path, data_asset_info_d = Some asset_info\<rparr>))"
    if "parse_asset ev folder prof = Inr (asset_path, asset_info)"
    by (rule aoi_link_profile_Some [OF rel sw u h href rd that])
qed

lemma link_step_profile:
  "g_link_profile ev folder link = Inr (Some (t, name, info)) \<Longrightarrow>
     g_link_step ev folder link st = set_field_metadata ev st t name info"
  "aoi_link_profile ev folder link = Inr (Some (t, name, info)) \<Longrightarrow>
     aoi_link_step ev folder link st = set_field_metadata ev st t name info"
  by (simp_all add: g_link_step_def aoi_link_step_def)

subsection \<open>The loader on the example catalogs\<close>

lemmas ex_defs = parse_g_profile_info_def root_doc_def lnk_def env_of_def files_root_def
     g_link_step_def g_link_profile_def startswith_def resolve_href_def hasattr_FieldSchema_def
     set_field_metadata_def store_target_def store_def plain_name_def dirname_def normpath_def
     root_info_def
     from_TDSCatalog_def parse_root_tds_ctl_info_def add_field_schema_def
     parse_aoi_subcollection_info_def child_link_step_def parse_aoi_profile_info_def
     aoi_link_step_def aoi_link_profile_def parse_asset_def files_aoi_def asset_img_def
     DatasetSTACCatalog_init_def Let_def




lemma load_bad:
  "from_TDSCatalog (env_of (files_root links_bad) []) ''/t/c.json'' = Inl ValueError"
  by (simp add: ex_defs links_bad_def)

lemma load_aoi_0:
  "from_TDSCatalog (env_of (files_aoi []) [''/t/aoi1/img.tif'']) ''/t/c.json''
     = Inl AssetCountException"
  by (simp add: ex_defs)

lemma load_aoi_2:
  "from_TDSCatalog (env_of (files_aoi [(''data'', asset_img), (''mask'', asset_img)])
      [''/t/aoi1/img.tif'']) ''/t/c.json'' = Inl AssetCountException"
  by (simp add: ex_defs)

lemma load_aoi_1:
  "(case from_TDSCatalog (env_of (files_aoi [(''data'', asset_img)]) [''/t/aoi1/img.tif'']) ''/t/c.json'' of
      Inl e \<Rightarrow> False | Inr cat \<Rightarrow> valid_tds cat \<and> length (aoi_collection_info_l cat) = 1)"
  by (simp add: ex_defs)






lemma load_dup_root:
  "\<exists>cat g. from_TDSCatalog (env_of (files_root links_dup) []) ''/t/c.json'' = Inr cat \<and>
     tds_ctl_root_info cat = Some \<lparr>root_fn_path = ''/t/c.json'',
        tds_root_metadata_d = root_doc links_dup, g_all_field_metadata = Some g\<rparr>"
  by (simp add: ex_defs links_dup_def)

lemma malformed_input1: "malformed_relation (lnk ''metadata/input1'' ''a.json'')"
  by (simp add: malformed_relation_def lnk_def startswith_def)

lemma malformed_input1_f: "malformed_relation (lnk ''metadata/input1'' ''f.json'')"
  by (simp add: malformed_relation_def lnk_def startswith_def)

lemma load_aoi_bad:
  "from_TDSCatalog (env_of files_aoi_bad [''/t/aoi1/img.tif'']) ''/t/c.json'' = Inl ValueError"
  by (simp add: ex_defs files_aoi_bad_def)

lemma aoi_asset_f:
  "parse_asset env_aoi ''/t/aoi1''
     (JObj [(''id'', JStr ''f''), (''assets'', JObj [(''data'', asset_img)])])
   = Inr (''/t/aoi1/img.tif'', asset_img)"
  by (simp add: env_aoi_def ex_defs)

lemma load_aoi_1_ex:
  "\<exists>cat. from_TDSCatalog (env_of (files_aoi [(''data'', asset_img)]) [''/t/aoi1/img.tif''])
      ''/t/c.json'' = Inr cat"
  using load_aoi_1 by (auto split: sum.splits)

subsection \<open>Relation strings\<close>

text \<open>
  Claim C6.  A relation \<^verbatim>\<open>metadata/<features|references>/<name>\<close> is unpacked into its
  type and name.  A link with such a relation, a string \<^verbatim>\<open>href\<close> and a readable file
  yields that pair with the profile read, in the root loop and, when the profile has its
  one asset, in the AOI loop; and in both loops the statement generated for the link is
  the one for that type and that name, with that profile.  A link whose relation starts
  with \<^verbatim>\<open>metadata\<close> and does not have exactly three tokens raises ValueError, the failed
  unpacking of the split, in the root loop and in the AOI loop alike, whatever was
  loaded before.  The exception is fatal for the whole load: a catalog that
  \<^verbatim>\<open>from_TDSCatalog\<close> returns has no such link in its root document nor in any of its AOI
  documents.
\<close>

theorem relation_grammar:
  "((t = ''features'' \<or> t = ''references'') \<and> CHR ''/'' \<notin> set name \<longrightarrow>
      unpack_rel (JStr (''metadata/'' @ t @ ''/'' @ name)) = Inr (t, name) \<and>
      (subscript link ''rel'' = Inr (JStr (''metadata/'' @ t @ ''/'' @ name)) \<and>
       subscript link ''href'' = Inr (JStr h) \<and>
       read_json ev (if is_absolute ev h then h else joinpath ev folder h) = Inr prof \<longrightarrow>
       g_link_profile ev folder link =
         Inr (Some (t, name,
           \<lparr>fn_path = (if is_absolute ev h then h else joinpath ev folder h), metadata_d = prof,
            data_asset_w_path = None, data_asset_info_d = None\<rparr>)) \<and>
       g_link_step ev folder link st =
         set_field_metadata ev st t name
           \<lparr>fn_path = (if is_absolute ev h then h else joinpath ev folder h), metadata_d = prof,
            data_asset_w_path = None, data_asset_info_d = None\<rparr> \<and>
       (parse_asset ev folder prof = Inr (asset_path, asset_info) \<longrightarrow>
        aoi_link_profile ev folder link =
          Inr (Some (t, name,
            \<lparr>fn_path = (if is_absolute ev h then h else joinpath ev folder h), metadata_d = prof,
             data_asset_w_path = Some asset_path, data_asset_info_d = Some asset_info\<rparr>)) \<and>
        aoi_link_step ev folder link st =
          set_field_metadata ev st t name
            \<lparr>fn_path = (if is_absolute ev h then h else joinpath ev folder h), metadata_d = prof,
             data_asset_w_path = Some asset_path, data_asset_info_d = Some asset_info\<rparr>))) \<and>
   (malformed_relation bad \<longrightarrow>
      g_link_step ev folder bad st = Inl ValueError \<and>
      aoi_link_step ev folder bad st = Inl ValueError) \<and>
   (from_TDSCatalog ev p = Inr cat \<longrightarrow>
      (\<exists>info. tds_ctl_root_info cat = Some info \<and>
         list_all (\<lambda>l. \<not> malformed_relation l) (doc_links (tds_root_metadata_d info))) \<and>
      list_all (\<lambda>a. list_all (\<lambda>l. \<not> malformed_relation l) (doc_links (aoi_collection_metadata_d a)))
        (aoi_collection_info_l cat))"
proof -
  have 1: "unpack_rel (JStr (''metadata/'' @ t @ ''/'' @ name)) = Inr (t, name)"
    if a: "(t = ''features'' \<or> t = ''references'') \<and> CHR ''/'' \<notin> set name"
  proof -
    from a have "CHR ''/'' \<notin> set t" by auto
    then show ?thesis using a by (intro unpack_rel_grammar) simp_all
  qed
  have 2: "g_link_profile ev folder link =
         Inr (Some (t, name,
           \<lparr>fn_path = (if is_absolute ev h then h else joinpath ev folder h), metadata_d = prof,
            data_asset_w_path = None, data_asset_info_d = None\<rparr>))"
    if a: "(t = ''features'' \<or> t = ''references'') \<and> CHR ''/'' \<notin> set name"
      and b: "subscript link ''rel'' = Inr (JStr (''metadata/'' @ t @ ''/'' @ name)) \<and>
       subscript link ''href'' = Inr (JStr h) \<and>
       read_json ev (if is_absolute ev h then h else joinpath ev folder h) = Inr prof"
    using a b by (intro link_profile_grammar(1)) simp_all
  have 3: "aoi_link_profile ev folder link =
          Inr (Some (t, name,
            \<lparr>fn_path = (if is_absolute ev h then h else joinpath ev folder h), metadata_d = prof,
             data_asset_w_path = Some asset_path, data_asset_info_d = Some asset_info\<rparr>))"
    if a: "(t = ''features'' \<or> t = ''references'') \<and> CHR ''/'' \<notin> set name"
      and b: "subscript link ''rel'' = Inr (JStr (''metadata/'' @ t @ ''/'' @ name)) \<and>
       subscript link ''href'' = Inr (JStr h) \<and>
       read_json ev (if is_absolute ev h then h else joinpath ev folder h) = Inr prof"
      and c: "parse_asset ev folder prof = Inr (asset_path, asset_info)"
    using a b c by (intro link_profile_grammar(2)) simp_all
  have 4: "g_link_step ev folder bad st = Inl ValueError"
    "aoi_link_step ev folder bad st = Inl ValueError" if "malformed_relation bad"
    using that by (simp_all add: link_step_malformed)
  have 5: "(\<exists>info. tds_ctl_root_info cat = Some info \<and>
         list_all (\<lambda>l. \<not> malformed_relation l) (doc_links (tds_root_metadata_d info))) \<and>
      list_all (\<lambda>a. list_all (\<lambda>l. \<not> malformed_relation l) (doc_links (aoi_collection_metadata_d a)))
        (aoi_collection_info_l cat)"
    if run: "from_TDSCatalog ev p = Inr cat"
  proof -
    from from_TDSCatalog_Inr [OF run] obtain d g l where
      g: "parse_g_profile_info ev
        \<lparr>root_fn_path = absolute ev p, tds_root_metadata_d = d, g_all_field_metadata = None\<rparr> = Inr g"
      and i: "tds_ctl_root_info cat =
        Some \<lparr>root_fn_path = absolute ev p, tds_root_metadata_d = d, g_all_field_metadata = Some g\<rparr>"
      and l: "list_all2 (\<lambda>a a'. \<exists>m.
          parse_aoi_profile_info ev a
            \<lparr>root_fn_path = absolute ev p, tds_root_metadata_d = d, g_all_field_metadata = Some g\<rparr>
            = Inr m \<and>
          a' = a\<lparr>aoi_all_field_metadata := Some m\<rparr>) l (aoi_collection_info_l cat)"
      by blast
    have r: "\<exists>info. tds_ctl_root_info cat = Some info \<and>
           list_all (\<lambda>l. \<not> malformed_relation l) (doc_links (tds_root_metadata_d info))"
      using parse_g_profile_info_no_malformed [OF g] i by simp
    have "list_all (\<lambda>l. \<not> malformed_relation l) (doc_links (aoi_collection_metadata_d a'))"
      if "a' \<in> set (aoi_collection_info_l cat)" for a'
    proof -
      from that l obtain a m where "parse_aoi_profile_info ev a
            \<lparr>root_fn_path = absolute ev p, tds_root_metadata_d = d, g_all_field_metadata = Some g\<rparr>
            = Inr m" "a' = a\<lparr>aoi_all_field_metadata := Some m\<rparr>"
        by (auto simp: list_all2_conv_all_nth in_set_conv_nth)
      then show ?thesis using parse_aoi_profile_info_no_malformed [of ev a _ m] by simp
    qed
    then have "list_all (\<lambda>a. list_all (\<lambda>l. \<not> malformed_relation l)
          (doc_links (aoi_collection_metadata_d a))) (aoi_collection_info_l cat)"
      by (simp add: list_all_iff)
    then show ?thesis using r by blast
  qed
  show ?thesis
    using 1 2 3 4 5 link_step_profile(1) [OF 2] link_step_profile(2) [OF 3] by blast
qed

text \<open>
  The specification's examples: \<^verbatim>\<open>metadata/features/input1\<close> gives the pair
  \<open>(features, input1)\<close>, and the profile of the link is stored under \<^verbatim>\<open>input1\<close> among the
  features, in the root loop and in the AOI loop; a link with \<^verbatim>\<open>metadata/input1\<close> raises,
  and the load of a catalog whose root document or whose AOI document holds it returns no
  catalog; the two catalogs that load hold no such link.
\<close>

theorem relation_grammar_witness:
  "unpack_rel (JStr ''metadata/features/input1'') = Inr (''features'', ''input1'') \<and>
   g_link_profile (env_of (files_root links_dup) []) ''/t''
       (lnk ''metadata/features/input1'' ''a.json'')
     = Inr (Some (''features'', ''input1'', info_a)) \<and>
   g_link_step (env_of (files_root links_dup) []) ''/t''
       (lnk ''metadata/features/input1'' ''a.json'')
       \<lparr>features = Map.empty, references = Map.empty\<rparr>
     = Inr \<lparr>features = [''input1'' \<mapsto> info_a], references = Map.empty\<rparr> \<and>
   aoi_link_profile env_aoi ''/t/aoi1'' (lnk ''metadata/features/input1'' ''f.json'')
     = Inr (Some (''features'', ''input1'', info_f)) \<and>
   aoi_link_step env_aoi ''/t/aoi1'' (lnk ''metadata/features/input1'' ''f.json'')
       \<lparr>features = Map.empty, references = Map.empty\<rparr>
     = Inr \<lparr>features = [''input1'' \<mapsto> info_f], references = Map.empty\<rparr> \<and>
   g_link_step (env_of (files_root links_dup) []) ''/t'' (lnk ''metadata/input1'' ''a.json'')
       \<lparr>features = Map.empty, references = Map.empty\<rparr> = Inl ValueError \<and>
   aoi_link_step env_aoi ''/t/aoi1'' (lnk ''metadata/input1'' ''f.json'')
       \<lparr>features = Map.empty, references = Map.empty\<rparr> = Inl ValueError \<and>
   from_TDSCatalog (env_of (files_root links_bad) []) ''/t/c.json'' = Inl ValueError \<and>
   from_TDSCatalog (env_of files_aoi_bad [''/t/aoi1/img.tif'']) ''/t/c.json'' = Inl ValueError \<and>
   list_all (\<lambda>l. \<not> malformed_relation l) links_dup \<and>
   (case from_TDSCatalog env_aoi ''/t/c.json'' of
      Inl e \<Rightarrow> False
    | Inr cat \<Rightarrow>
        length (aoi_collection_info_l cat) = 1 \<and>
        list_all (\<lambda>a. list_all (\<lambda>l. \<not> malformed_relation l)
            (doc_links (aoi_collection_metadata_d a))) (aoi_collection_info_l cat))"
proof -
  from load_dup_root obtain cat g where
    cat: "from_TDSCatalog (env_of (files_root links_dup) []) ''/t/c.json'' = Inr cat"
    and info: "tds_ctl_root_info cat = Some \<lparr>root_fn_path = ''/t/c.json'',
        tds_root_metadata_d = root_doc links_dup, g_all_field_metadata = Some g\<rparr>"
    by blast
  from load_aoi_1 obtain cat' where
    cat': "from_TDSCatalog env_aoi ''/t/c.json'' = Inr cat'"
    and len': "length (aoi_collection_info_l cat') = 1"
    by (auto simp: env_aoi_def split: sum.splits)
  note T = relation_grammar [of "''features''" "''input1''"
      "lnk ''metadata/features/input1'' ''a.json''" "''a.json''"
      "env_of (files_root links_dup) []" "''/t''" "JObj [(''id'', JStr ''a'')]"
      "\<lparr>features = Map.empty, references = Map.empty\<rparr>" _ _
      "lnk ''metadata/input1'' ''a.json''" "''/t/c.json''" cat]
  note A = relation_grammar [of "''features''" "''input1''"
      "lnk ''metadata/features/input1'' ''f.json''" "''f.json''"
      env_aoi "''/t/aoi1''"
      "JObj [(''id'', JStr ''f''), (''assets'', JObj [(''data'', asset_img)])]"
      "\<lparr>features = Map.empty, references = Map.empty\<rparr>" "''/t/aoi1/img.tif''" asset_img
      "lnk ''metadata/input1'' ''f.json''" "''/t/c.json''" cat']
  have h: "subscript (lnk ''metadata/features/input1'' ''a.json'') ''rel''
       = Inr (JStr ''metadata/features/input1'')"
    "subscript (lnk ''metadata/features/input1'' ''a.json'') ''href'' = Inr (JStr ''a.json'')"
    "read_json (env_of (files_root links_dup) [])
       (if is_absolute (env_of (files_root links_dup) []) ''a.json'' then ''a.json''
        else joinpath (env_of (files_root links_dup) []) ''/t'' ''a.json'')
      = Inr (JObj [(''id'', JStr ''a'')])"
    "(if is_absolute (env_of (files_root links_dup) []) ''a.json'' then ''a.json''
        else joinpath (env_of (files_root links_dup) []) ''/t'' ''a.json'') = ''/t/a.json''"
    by (simp_all add: lnk_def env_of_def files_root_def startswith_def normpath_def)
  have h': "subscript (lnk ''metadata/features/input1'' ''f.json'') ''rel''
       = Inr (JStr ''metadata/features/input1'')"
    "subscript (lnk ''metadata/features/input1'' ''f.json'') ''href'' = Inr (JStr ''f.json'')"
    "read_json env_aoi
       (if is_absolute env_aoi ''f.json'' then ''f.json''
        else joinpath env_aoi ''/t/aoi1'' ''f.json'')
      = Inr (JObj [(''id'', JStr ''f''), (''assets'', JObj [(''data'', asset_img)])])"
    "(if is_absolute env_aoi ''f.json'' then ''f.json''
        else joinpath env_aoi ''/t/aoi1'' ''f.json'') = ''/t/aoi1/f.json''"
    by (simp_all add: lnk_def env_aoi_def env_of_def files_aoi_def startswith_def normpath_def)
  have st: "set_field_metadata ev \<lparr>features = Map.empty, references = Map.empty\<rparr>
      ''features'' ''input1'' i = Inr \<lparr>features = [''input1'' \<mapsto> i], references = Map.empty\<rparr>"
    for ev i
    by (simp add: set_field_metadata_def store_target_def store_def plain_name_def)
  have dl: "doc_links (root_doc links_dup) = links_dup"
    by (simp add: doc_links_def root_doc_def)
  have 1: "unpack_rel (JStr ''metadata/features/input1'') = Inr (''features'', ''input1'')"
    using T by simp
  have 2: "g_link_profile (env_of (files_root links_dup) []) ''/t''
       (lnk ''metadata/features/input1'' ''a.json'')
     = Inr (Some (''features'', ''input1'', info_a))"
    "g_link_step (env_of (files_root links_dup) []) ''/t''
       (lnk ''metadata/features/input1'' ''a.json'')
       \<lparr>features = Map.empty, references = Map.empty\<rparr>
     = Inr \<lparr>features = [''input1'' \<mapsto> info_a], references = Map.empty\<rparr>"
    using T [THEN conjunct1] h st by (simp_all add: info_a_def)
  have 3: "aoi_link_profile env_aoi ''/t/aoi1'' (lnk ''metadata/features/input1'' ''f.json'')
     = Inr (Some (''features'', ''input1'', info_f))"
    "aoi_link_step env_aoi ''/t/aoi1'' (lnk ''metadata/features/input1'' ''f.json'')
       \<lparr>features = Map.empty, references = Map.empty\<rparr>
     = Inr \<lparr>features = [''input1'' \<mapsto> info_f], references = Map.empty\<rparr>"
    using A [THEN conjunct1] h' st aoi_asset_f by (simp_all add: info_f_def)
  have 4: "g_link_step (env_of (files_root links_dup) []) ''/t'' (lnk ''metadata/input1'' ''a.json'')
       \<lparr>features = Map.empty, references = Map.empty\<rparr> = Inl ValueError"
    using T [THEN conjunct2, THEN conjunct1] malformed_input1 by simp
  have 5: "aoi_link_step env_aoi ''/t/aoi1'' (lnk ''metadata/input1'' ''f.json'')
       \<lparr>features = Map.empty, references = Map.empty\<rparr> = Inl ValueError"
    using A [THEN conjunct2, THEN conjunct1] malformed_input1_f by simp
  have 6: "list_all (\<lambda>l. \<not> malformed_relation l) links_dup"
    using T [THEN conjunct2, THEN conjunct2] cat info dl by simp
  have 7: "list_all (\<lambda>a. list_all (\<lambda>l. \<not> malformed_relation l)
            (doc_links (aoi_collection_metadata_d a))) (aoi_collection_info_l cat')"
    using A [THEN conjunct2, THEN conjunct2] cat' by simp
  show ?thesis using 1 2 3 4 5 6 7 load_bad load_aoi_bad cat' len' by simp
qed

subsection \<open>Asset cardinality\<close>

lemma parse_asset_Inr:
  "parse_asset ev folder prof = Inr r \<Longrightarrow> one_asset prof"
  unfolding parse_asset_def one_asset_def
  by (auto simp: bindE_eq_Inr split: if_splits)

lemma parse_asset_count:
  "subscript prof ''assets'' = Inr assets \<Longrightarrow> len_json assets = Inr k \<Longrightarrow> k \<noteq> 1 \<Longrightarrow>
   parse_asset ev folder prof = Inl AssetCountException"
  by (simp add: parse_asset_def)

lemma aoi_link_profile_one_asset:
  assumes "aoi_link_profile ev folder link = Inr (Some (t, n, info))"
  shows "one_asset (metadata_d info)"
proof -
  from assms obtain prof r where "parse_asset ev folder prof = Inr r" "metadata_d info = prof"
    unfolding aoi_link_profile_def
    by (auto simp: bindE_eq_Inr split: if_splits prod.splits)
  then show ?thesis using parse_asset_Inr by blast
qed

lemma set_field_metadata_one_asset:
  assumes "set_field_metadata ev a t n info = Inr b" and "admitted_one_asset a"
    and "one_asset (metadata_d info)"
  shows "admitted_one_asset b"
proof -
  from assms(1) obtain tg where "b = store tg info a"
    by (auto simp: set_field_metadata_Inr)
  then show ?thesis
    using assms(2,3) unfolding store_def admitted_one_asset_def
    by (cases tg) (auto split: if_splits)
qed

lemma aoi_link_step_one_asset:
  assumes "aoi_link_step ev folder link a = Inr b" and "admitted_one_asset a"
  shows "admitted_one_asset b"
proof -
  from assms(1) obtain r where r: "aoi_link_profile ev folder link = Inr r"
    "(case r of None \<Rightarrow> Inr a
      | Some (field_type, field_name, field_profile_info) \<Rightarrow>
          set_field_metadata ev a field_type field_name field_profile_info) = Inr b"
    unfolding aoi_link_step_def by (auto simp: bindE_eq_Inr)
  show ?thesis
  proof (cases r)
    case None
    then show ?thesis using r assms(2) by simp
  next
    case (Some x)
    obtain t n info where x: "x = (t, n, info)" by (cases x) auto
    have "one_asset (metadata_d info)"
      using r(1) Some x aoi_link_profile_one_asset by blast
    moreover have "set_field_metadata ev a t n info = Inr b" using r(2) Some x by simp
    ultimately show ?thesis using assms(2) set_field_metadata_one_asset by blast
  qed
qed

lemma parse_aoi_profile_info_one_asset:
  assumes "parse_aoi_profile_info ev a info = Inr m"
  shows "admitted_one_asset m"
proof (rule foldE_invariant [where I = admitted_one_asset,
      OF _ _ parse_aoi_profile_info_links [OF assms]])
  show "admitted_one_asset \<lparr>features = Map.empty, references = Map.empty\<rparr>"
    by (simp add: admitted_one_asset_def)
next
  fix x s s'
  assume "aoi_link_step ev (parent ev (absolute ev (aoi_fn_path a))) x s = Inr s'"
    "admitted_one_asset s"
  then show "admitted_one_asset s'" by (rule aoi_link_step_one_asset)
qed

text \<open>
  Claim C7.  In the AOI loop, a metadata link that passes the relation and field-type
  checks and whose profile document has an \<^verbatim>\<open>assets\<close> dictionary with a number of entries
  other than 1 raises the exception of \<^verbatim>\<open>'Has different than 1 asset'\<close>; and every AOI
  of a catalog that \<^verbatim>\<open>from_TDSCatalog\<close> returns holds only profiles with exactly one asset.
\<close>

theorem asset_cardinality:
  "(subscript link ''rel'' = Inr (JStr rel) \<and> startswith rel ''metadata'' \<and>
    unpack_rel (JStr rel) = Inr (t, n) \<and> subscript link ''href'' = Inr href \<and>
    resolve_href ev folder href = Inr path \<and> read_json ev path = Inr prof \<and>
    hasattr_FieldSchema ev t \<and>
    subscript prof ''assets'' = Inr (JObj assets) \<and> length assets \<noteq> 1 \<longrightarrow>
      aoi_link_profile ev folder link = Inl AssetCountException \<and>
      aoi_link_step ev folder link st = Inl AssetCountException) \<and>
   (from_TDSCatalog ev p = Inr cat \<longrightarrow>
      list_all (\<lambda>a. \<exists>m. aoi_all_field_metadata a = Some m \<and> admitted_one_asset m)
        (aoi_collection_info_l cat))"
proof (intro conjI impI)
  assume a: "subscript link ''rel'' = Inr (JStr rel) \<and> startswith rel ''metadata'' \<and>
    unpack_rel (JStr rel) = Inr (t, n) \<and> subscript link ''href'' = Inr href \<and>
    resolve_href ev folder href = Inr path \<and> read_json ev path = Inr prof \<and>
    hasattr_FieldSchema ev t \<and>
    subscript prof ''assets'' = Inr (JObj assets) \<and> length assets \<noteq> 1"
  then have "parse_asset ev folder prof = Inl AssetCountException"
    using parse_asset_count [of prof "JObj assets" "length assets" ev folder] by simp
  then show p: "aoi_link_profile ev folder link = Inl AssetCountException"
    using a unfolding aoi_link_profile_def by (simp del: unpack_rel.simps)
  show "aoi_link_step ev folder link st = Inl AssetCountException"
    by (simp add: aoi_link_step_def p)
next
  assume run: "from_TDSCatalog ev p = Inr cat"
  from from_TDSCatalog_Inr [OF run] obtain d g l where
    l: "list_all2 (\<lambda>a a'. \<exists>m.
        parse_aoi_profile_info ev a
          \<lparr>root_fn_path = absolute ev p, tds_root_metadata_d = d, g_all_field_metadata = Some g\<rparr>
          = Inr m \<and>
        a' = a\<lparr>aoi_all_field_metadata := Some m\<rparr>) l (aoi_collection_info_l cat)"
    by blast
  have "\<exists>m. aoi_all_field_metadata a' = Some m \<and> admitted_one_asset m"
    if "a' \<in> set (aoi_collection_info_l cat)" for a'
  proof -
    from that l obtain a m where "parse_aoi_profile_info ev a
          \<lparr>root_fn_path = absolute ev p, tds_root_metadata_d = d, g_all_field_metadata = Some g\<rparr>
          = Inr m" "a' = a\<lparr>aoi_all_field_metadata := Some m\<rparr>"
      by (auto simp: list_all2_conv_all_nth in_set_conv_nth)
    then show ?thesis using parse_aoi_profile_info_one_asset [of ev a _ m] by simp
  qed
  then show "list_all (\<lambda>a. \<exists>m. aoi_all_field_metadata a = Some m \<and> admitted_one_asset m)
        (aoi_collection_info_l cat)"
    by (simp add: list_all_iff)
qed

text \<open>
  A profile with no asset and one with two assets raise and end the whole load; with one
  asset the catalog is returned.
\<close>

theorem asset_cardinality_witness:
  "aoi_link_step (env_of (files_aoi []) [''/t/aoi1/img.tif'']) ''/t/aoi1''
       (lnk ''metadata/features/input1'' ''f.json'')
       \<lparr>features = Map.empty, references = Map.empty\<rparr> = Inl AssetCountException \<and>
   aoi_link_step (env_of (files_aoi [(''data'', asset_img), (''mask'', asset_img)])
         [''/t/aoi1/img.tif'']) ''/t/aoi1''
       (lnk ''metadata/features/input1'' ''f.json'')
       \<lparr>features = Map.empty, references = Map.empty\<rparr> = Inl AssetCountException \<and>
   from_TDSCatalog (env_of (files_aoi []) [''/t/aoi1/img.tif'']) ''/t/c.json''
     = Inl AssetCountException \<and>
   from_TDSCatalog (env_of (files_aoi [(''data'', asset_img), (''mask'', asset_img)])
      [''/t/aoi1/img.tif'']) ''/t/c.json'' = Inl AssetCountException \<and>
   (case from_TDSCatalog (env_of (files_aoi [(''data'', asset_img)]) [''/t/aoi1/img.tif''])
           ''/t/c.json'' of
      Inl e \<Rightarrow> False
    | Inr cat \<Rightarrow>
        list_all (\<lambda>a. \<exists>m. aoi_all_field_metadata a = Some m \<and> admitted_one_asset m)
          (aoi_collection_info_l cat))"
proof -
  have 0: "aoi_link_step (env_of (files_aoi assets) [''/t/aoi1/img.tif'']) ''/t/aoi1''
       (lnk ''metadata/features/input1'' ''f.json'')
       \<lparr>features = Map.empty, references = Map.empty\<rparr> = Inl AssetCountException"
    if "length assets \<noteq> 1" for assets
    using asset_cardinality [of "lnk ''metadata/features/input1'' ''f.json''"
        "''metadata/features/input1''" "''features''" "''input1''" "JStr ''f.json''"
        "env_of (files_aoi assets) [''/t/aoi1/img.tif'']" "''/t/aoi1''" "''/t/aoi1/f.json''"
        "JObj [(''id'', JStr ''f''), (''assets'', JObj assets)]" assets
        "\<lparr>features = Map.empty, references = Map.empty\<rparr>", THEN conjunct1] that
    by (simp add: lnk_def startswith_def resolve_href_def env_of_def files_aoi_def
        hasattr_FieldSchema_def normpath_def)
  from load_aoi_1_ex obtain cat where
    cat: "from_TDSCatalog (env_of (files_aoi [(''data'', asset_img)]) [''/t/aoi1/img.tif''])
      ''/t/c.json'' = Inr cat" by blast
  have 1: "list_all (\<lambda>a. \<exists>m. aoi_all_field_metadata a = Some m \<and> admitted_one_asset m)
          (aoi_collection_info_l cat)"
    using asset_cardinality [THEN conjunct2, of
        "env_of (files_aoi [(''data'', asset_img)]) [''/t/aoi1/img.tif'']" "''/t/c.json''" cat]
      cat by simp
  show ?thesis
    using 0 [of "[]"] 0 [of "[(''data'', asset_img), (''mask'', asset_img)]"]
      load_aoi_0 load_aoi_2 1 cat by simp
qed

subsection \<open>Duplicate field names\<close>














end
